theory Spec2Isabelle
  imports Main "HOL-Library.Word"
begin

section \<open>Go values used by the handlers\<close>

text \<open>
  The backend is built for a 64-bit target, where Go's \<^verbatim>\<open>uint\<close> is 64 bits wide.
  \<^verbatim>\<open>[]byte\<close> and \<^verbatim>\<open>string\<close> are both byte sequences.
\<close>

type_synonym uint = "64 word"
type_synonym bytes = string

subsection \<open>time\<close>

text \<open>
  A \<^verbatim>\<open>time.Time\<close> is an instant, kept here as nanoseconds since the Unix epoch; a
  \<^verbatim>\<open>time.Duration\<close> is a number of nanoseconds. \<^verbatim>\<open>Unix()\<close> is the number of whole
  seconds since the epoch (rounded down, also before 1970).
\<close>

type_synonym go_time = int
type_synonym Duration = int

definition Second :: Duration where
  "Second = 1000000000"

definition Hour :: Duration where
  "Hour = 3600 * Second"

definition Add :: "go_time \<Rightarrow> Duration \<Rightarrow> go_time" where
  "Add t d = t + d"

definition Unix :: "go_time \<Rightarrow> int" where
  "Unix t = t div Second"

subsection \<open>float64 values of integers\<close>

text \<open>
  The claims of a parsed token are decoded from JSON into \<^verbatim>\<open>interface{}\<close> values, where
  every JSON number becomes a \<^verbatim>\<open>float64\<close>. The numbers written by \<^verbatim>\<open>CreateToken\<close> are
  integers, so only the float64 nearest to an integer is needed: 53 significant bits,
  ties to the even significand. The result is again an integer, kept as such.
\<close>

fun bit_length :: "nat \<Rightarrow> nat" where
  "bit_length n = (if n = 0 then 0 else Suc (bit_length (n div 2)))"

declare bit_length.simps [simp del]

definition float64_of_nat :: "nat \<Rightarrow> nat" where
  "float64_of_nat n =
     (if bit_length n \<le> 53 then n
      else let e = bit_length n - 53;
               q = n div 2 ^ e;
               r = n mod 2 ^ e;
               h = 2 ^ (e - 1)
           in (if r > h \<or> (r = h \<and> odd q) then q + 1 else q) * 2 ^ e)"

definition float64_of_int :: "int \<Rightarrow> int" where
  "float64_of_int i = (if i < 0 then - int (float64_of_nat (nat (- i))) else int (float64_of_nat (nat i)))"

text \<open>
  The conversion \<^verbatim>\<open>uint(f)\<close> of a float64: exact when the (integer) value fits; outside
  the range of \<^verbatim>\<open>uint\<close> the language leaves the result to the implementation
  (\<open>None\<close>).
\<close>

definition uint_of_float64 :: "int \<Rightarrow> uint option" where
  "uint_of_float64 f = (if 0 \<le> f \<and> f < 2 ^ 64 then Some (word_of_int f) else None)"

subsection \<open>The environment\<close>

text \<open>\<^verbatim>\<open>os.Getenv\<close> returns the value of the variable, and the empty string when it is unset.\<close>

type_synonym environ = "string \<rightharpoonup> string"

definition Getenv :: "environ \<Rightarrow> string \<Rightarrow> string" where
  "Getenv env k = (case env k of None \<Rightarrow> [] | Some v \<Rightarrow> v)"

section \<open>JSON Web Tokens\<close>

text \<open>
  A value held in \<^verbatim>\<open>jwt.MapClaims\<close> is an \<^verbatim>\<open>interface{}\<close>: what \<^verbatim>\<open>CreateToken\<close> stores is
  a \<^verbatim>\<open>uint\<close> and an \<^verbatim>\<open>int64\<close>; what the JSON decoder produces is a \<^verbatim>\<open>float64\<close> or a
  \<^verbatim>\<open>string\<close>. \<open>GoFloat64 n\<close> is the float64 whose value is the integer \<open>n\<close>.
\<close>

datatype claim_value = GoUint uint | GoInt64 int | GoFloat64 int | GoString string

type_synonym MapClaims = "string \<rightharpoonup> claim_value"

record jwt_token =
  Header :: "string \<rightharpoonup> string"
  Claims :: MapClaims

text \<open>
  The compact serialisation \<^verbatim>\<open>header.payload.signature\<close>, kept structured: the header
  and the payload are JSON objects, the signature is the MAC of the two.
\<close>

datatype json = JNumber int | JString string

type_synonym json_object = "string \<rightharpoonup> json"

record signed_jwt =
  jws_header :: "string \<rightharpoonup> string"
  jws_payload :: json_object
  jws_signature :: bytes

datatype jwt_error = ErrHashUnavailable | ErrInvalidKeyType

text \<open>
  HMAC-SHA256 is the library's; it is a parameter of the model: from the key and the
  signing input (header and payload) to the signature, or an error.
\<close>

type_synonym hs256 = "bytes \<Rightarrow> (string \<rightharpoonup> string) \<times> json_object \<Rightarrow> jwt_error + bytes"

definition json_of_claim :: "claim_value \<Rightarrow> json" where
  "json_of_claim v =
     (case v of GoUint u \<Rightarrow> JNumber (uint u)
      | GoInt64 i \<Rightarrow> JNumber i
      | GoFloat64 f \<Rightarrow> JNumber f
      | GoString s \<Rightarrow> JString s)"

definition claim_of_json :: "json \<Rightarrow> claim_value" where
  "claim_of_json j =
     (case j of JNumber n \<Rightarrow> GoFloat64 (float64_of_int n)
      | JString s \<Rightarrow> GoString s)"

definition NewWithClaims :: "string \<Rightarrow> MapClaims \<Rightarrow> jwt_token" where
  "NewWithClaims alg claims =
     \<lparr>Header = [''typ'' \<mapsto> ''JWT'', ''alg'' \<mapsto> alg], Claims = claims\<rparr>"

definition SigningString :: "jwt_token \<Rightarrow> (string \<rightharpoonup> string) \<times> json_object" where
  "SigningString token = (Header token, map_option json_of_claim \<circ> Claims token)"

definition SignedString :: "hs256 \<Rightarrow> jwt_token \<Rightarrow> bytes \<Rightarrow> jwt_error + signed_jwt" where
  "SignedString mac token key =
     (case mac key (SigningString token) of
        Inl err \<Rightarrow> Inl err
      | Inr sig \<Rightarrow>
          Inr \<lparr>jws_header = fst (SigningString token),
               jws_payload = snd (SigningString token),
               jws_signature = sig\<rparr>)"

text \<open>
  \<^verbatim>\<open>CreateToken\<close>: the payload holds \<^verbatim>\<open>user_id\<close> and \<^verbatim>\<open>exp\<close>; the key is read from the
  environment at the call.
\<close>

definition CreateToken_payload :: "go_time \<Rightarrow> uint \<Rightarrow> MapClaims" where
  "CreateToken_payload now userID =
     (Map.empty(''user_id'' \<mapsto> GoUint userID))(''exp'' \<mapsto> GoInt64 (Unix (Add now (Hour * 24))))"

definition CreateToken :: "hs256 \<Rightarrow> environ \<Rightarrow> go_time \<Rightarrow> uint \<Rightarrow> jwt_error + signed_jwt" where
  "CreateToken mac env now userID =
     (let payload = CreateToken_payload now userID;
          token = NewWithClaims ''HS256'' payload
      in SignedString mac token (Getenv env ''JWT_SECRET''))"

subsection \<open>The identity middleware\<close>

text \<open>
  Modelled from the spec: the middleware that verifies the token in front of the protected
  routes is configured outside \<^verbatim>\<open>routes/handlers.go\<close>. Section 4.3 of the specification:
  \<^verbatim>\<open>Verify\<close> fails with \<open>Missing\<close> if the token is absent, \<open>Malformed\<close> if it cannot be
  parsed, \<open>BadSignature\<close> if the signature does not match, \<open>Expired\<close> if
  \<open>now > expiresAt\<close>; it consults nothing but the token, the key and the clock. On
  success the parsed token is what the handlers read from \<^verbatim>\<open>c.Locals("user")\<close>, its claims
  decoded from JSON.
\<close>

datatype AuthError = Missing | Malformed | BadSignature | Expired | Forbidden

datatype bearer = Absent | Unparsable | Bearer signed_jwt

definition Verify :: "hs256 \<Rightarrow> bytes \<Rightarrow> go_time \<Rightarrow> bearer \<Rightarrow> AuthError + jwt_token" where
  "Verify mac key now b =
     (case b of
        Absent \<Rightarrow> Inl Missing
      | Unparsable \<Rightarrow> Inl Malformed
      | Bearer t \<Rightarrow>
          if mac key (jws_header t, jws_payload t) \<noteq> Inr (jws_signature t) then Inl BadSignature
          else (case jws_payload t ''exp'' of
                  Some (JNumber e) \<Rightarrow>
                    if Unix now > e then Inl Expired
                    else Inr \<lparr>Header = jws_header t,
                              Claims = map_option claim_of_json \<circ> jws_payload t\<rparr>
                | _ \<Rightarrow> Inl Malformed))"

subsection \<open>Claim extraction in the handlers\<close>

text \<open>
  Every protected handler starts with the same three lines:
  \<^verbatim>\<open>token := c.Locals("user").(*jwt.Token)\<close>,
  \<^verbatim>\<open>claims := token.Claims.(jwt.MapClaims)\<close>,
  \<^verbatim>\<open>userID := uint(claims["user_id"].(float64))\<close>.
  A failed type assertion panics; a float64 outside the range of \<^verbatim>\<open>uint\<close> converts to an
  implementation-dependent value.
\<close>

datatype go_fault = Panic | OutOfRangeConversion

definition token_user_id :: "jwt_token option \<Rightarrow> go_fault + uint" where
  "token_user_id locals_user =
     (case locals_user of
        None \<Rightarrow> Inl Panic
      | Some token \<Rightarrow>
          (case Claims token ''user_id'' of
             Some (GoFloat64 f) \<Rightarrow>
               (case uint_of_float64 f of
                  None \<Rightarrow> Inl OutOfRangeConversion
                | Some userID \<Rightarrow> Inr userID)
           | _ \<Rightarrow> Inl Panic))"

text \<open>
  The identity a protected handler derives from the token that \<^verbatim>\<open>CreateToken\<close> has just
  issued, verified at the time of issuance with the key of the same environment
  (\<open>None\<close> when issuance, verification or extraction fails).
\<close>

definition Verify_derived_identity :: "hs256 \<Rightarrow> environ \<Rightarrow> go_time \<Rightarrow> uint \<Rightarrow> uint option" where
  "Verify_derived_identity mac env now u =
     (case CreateToken mac env now u of
        Inl _ \<Rightarrow> None
      | Inr t \<Rightarrow>
          (case Verify mac (Getenv env ''JWT_SECRET'') now (Bearer t) of
             Inl _ \<Rightarrow> None
           | Inr token \<Rightarrow>
               (case token_user_id (Some token) of Inl _ \<Rightarrow> None | Inr userID \<Rightarrow> Some userID)))"

section \<open>Externals of the handlers\<close>

subsection \<open>strconv\<close>

datatype strconv_error = ErrSyntax | ErrRange

definition digit_val :: "char \<Rightarrow> nat option" where
  "digit_val c =
     (if 48 \<le> (of_char c :: nat) \<and> (of_char c :: nat) \<le> 57 then Some (of_char c - 48) else None)"

fun parse_digits :: "nat \<Rightarrow> string \<Rightarrow> nat option" where
  "parse_digits acc [] = Some acc"
| "parse_digits acc (c # cs) =
     (case digit_val c of None \<Rightarrow> None | Some d \<Rightarrow> parse_digits (acc * 10 + d) cs)"

text \<open>\<^verbatim>\<open>strconv.ParseUint(s, 10, bitSize)\<close>: decimal digits only, no sign, not empty.\<close>

definition ParseUint :: "string \<Rightarrow> nat \<Rightarrow> strconv_error + nat" where
  "ParseUint s bitSize =
     (if s = [] then Inl ErrSyntax
      else case parse_digits 0 s of
             None \<Rightarrow> Inl ErrSyntax
           | Some n \<Rightarrow> if n \<ge> 2 ^ bitSize then Inl ErrRange else Inr n)"

subsection \<open>Library functions and float64 arithmetic\<close>

text \<open>
  bcrypt, HMAC-SHA256, the validator's \<^verbatim>\<open>email\<close> rule and the database's reading of a
  text parameter as an integer belong to libraries; float64 arithmetic belongs to the
  language. They are parameters of the model, and \<open>'f\<close> is the type of float64 values.
  \<^verbatim>\<open>bcrypt.GenerateFromPassword\<close> draws a salt: its first argument here is the
  randomness it reads.
\<close>

datatype bcrypt_error = ErrMismatchedHashAndPassword | ErrHashTooShort | ErrPasswordTooLong

record 'f extern =
  GenerateFromPassword :: "bytes \<Rightarrow> bytes \<Rightarrow> int \<Rightarrow> bcrypt_error + bytes"
  CompareHashAndPassword :: "bytes \<Rightarrow> bytes \<Rightarrow> bcrypt_error option"
  HS256 :: hs256
  validate_email :: "string \<Rightarrow> bool"
  sql_integer :: "string \<Rightarrow> uint option"
  float64_of_uint :: "uint \<Rightarrow> 'f"
  float64_mul :: "'f \<Rightarrow> 'f \<Rightarrow> 'f"

text \<open>
  What one request reads from its surroundings: the environment variables, the clock,
  the number that \<^verbatim>\<open>rand.Intn(10000)\<close> returns, the randomness for the salt, and which
  of the handler's database calls (numbered in source order, from 0) fail in the driver.
\<close>

record ambient =
  environment :: environ
  time_Now :: go_time
  rand_Intn_10000 :: int
  crypto_rand :: bytes
  db_fails :: "nat \<Rightarrow> bool"

subsection \<open>Responses\<close>

datatype fiber_value =
  VBool bool | VString string | VErrors "(string \<times> string) list" | VToken signed_jwt

type_synonym fiber_Map = "string \<rightharpoonup> fiber_value"

record cookie =
  cookie_Name :: string
  cookie_Value :: string
  cookie_Expires :: go_time
  cookie_HTTPOnly :: bool

datatype 'a json_body = JSONMap fiber_Map | JSONStruct 'a

record 'a response =
  status :: nat
  body :: "'a json_body"
  cookies :: "cookie list"

definition StatusOK :: nat where "StatusOK = 200"
definition StatusBadRequest :: nat where "StatusBadRequest = 400"
definition StatusNotFound :: nat where "StatusNotFound = 404"
definition StatusConflict :: nat where "StatusConflict = 409"
definition StatusInternalServerError :: nat where "StatusInternalServerError = 500"

lemmas Status_defs =
  StatusOK_def StatusBadRequest_def StatusNotFound_def StatusConflict_def
  StatusInternalServerError_def

text \<open>\<^verbatim>\<open>c.Status(st).JSON(fiber.Map{...})\<close>; \<^verbatim>\<open>c.JSON(v)\<close> answers with status 200.\<close>

definition JSON :: "nat \<Rightarrow> fiber_Map \<Rightarrow> 'a response" where
  "JSON st m = \<lparr>status = st, body = JSONMap m, cookies = []\<rparr>"

definition JSON_struct :: "'a \<Rightarrow> 'a response" where
  "JSON_struct v = \<lparr>status = StatusOK, body = JSONStruct v, cookies = []\<rparr>"

section \<open>The database\<close>

text \<open>
  The rows of \<^verbatim>\<open>database.User\<close>, \<^verbatim>\<open>database.Book\<close> and \<^verbatim>\<open>database.CartItem\<close>, with the
  fields that the handlers below read or write. A table is the list of its rows in
  primary-key order; the sequence is the last key handed out.
\<close>

record user =
  User_ID :: uint
  User_UserID :: uint
  User_FirstName :: string
  User_LastName :: string
  User_Email :: string
  User_Password :: bytes
  User_Role :: string
  User_Active :: bool

record 'f book =
  Book_ID :: uint
  Book_Price :: 'f

record 'f cart_item =
  CartItem_ID :: uint
  CartItem_UserID :: uint
  CartItem_BookID :: uint
  CartItem_Quantity :: uint
  CartItem_Subtotal :: 'f

record 'f database =
  users :: "user list"
  users_seq :: uint
  books :: "'f book list"
  cart_items :: "'f cart_item list"
  cart_items_seq :: uint

datatype gorm_error = ErrRecordNotFound | ErrDriver

text \<open>\<^verbatim>\<open>Where(cond).First(&row)\<close> and \<^verbatim>\<open>First(&row, id)\<close>: the first row, in key order, that
  satisfies the condition.\<close>

definition First :: "bool \<Rightarrow> ('r \<Rightarrow> bool) \<Rightarrow> 'r list \<Rightarrow> gorm_error + 'r" where
  "First failed cond rows =
     (if failed then Inl ErrDriver
      else case find cond rows of None \<Rightarrow> Inl ErrRecordNotFound | Some r \<Rightarrow> Inr r)"

text \<open>\<^verbatim>\<open>Create(&row)\<close> of a row whose key is zero: the database hands out the next key, and
  the row in memory receives it.\<close>

definition Create_user :: "bool \<Rightarrow> user \<Rightarrow> 'f database \<Rightarrow> gorm_error + user \<times> 'f database" where
  "Create_user failed u db =
     (if failed then Inl ErrDriver
      else let row = u\<lparr>User_ID := users_seq db + 1\<rparr>
           in Inr (row, db\<lparr>users := users db @ [row], users_seq := users_seq db + 1\<rparr>))"

definition Create_cart_item ::
  "bool \<Rightarrow> 'f cart_item \<Rightarrow> 'f database \<Rightarrow> gorm_error + 'f cart_item \<times> 'f database" where
  "Create_cart_item failed ci db =
     (if failed then Inl ErrDriver
      else let row = ci\<lparr>CartItem_ID := cart_items_seq db + 1\<rparr>
           in Inr (row, db\<lparr>cart_items := cart_items db @ [row],
                            cart_items_seq := cart_items_seq db + 1\<rparr>))"

text \<open>\<^verbatim>\<open>Save(&row)\<close> writes every field of the row with that primary key.\<close>

definition Save_user :: "bool \<Rightarrow> user \<Rightarrow> 'f database \<Rightarrow> gorm_error + 'f database" where
  "Save_user failed u db =
     (if failed then Inl ErrDriver
      else Inr (db\<lparr>users := map (\<lambda>r. if User_ID r = User_ID u then u else r) (users db)\<rparr>))"

definition Save_cart_item :: "bool \<Rightarrow> 'f cart_item \<Rightarrow> 'f database \<Rightarrow> gorm_error + 'f database" where
  "Save_cart_item failed ci db =
     (if failed then Inl ErrDriver
      else Inr (db\<lparr>cart_items :=
                     map (\<lambda>r. if CartItem_ID r = CartItem_ID ci then ci else r) (cart_items db)\<rparr>))"

text \<open>\<^verbatim>\<open>Model(&user).Update("active", v)\<close> writes the one column of the row with that key.\<close>

definition Update_active :: "bool \<Rightarrow> user \<Rightarrow> bool \<Rightarrow> 'f database \<Rightarrow> gorm_error + 'f database" where
  "Update_active failed u v db =
     (if failed then Inl ErrDriver
      else Inr (db\<lparr>users :=
                     map (\<lambda>r. if User_ID r = User_ID u then r\<lparr>User_Active := v\<rparr> else r) (users db)\<rparr>))"

section \<open>The handlers\<close>

subsection \<open>LoginHandler\<close>

record login_data =
  login_Email :: string
  login_Password :: string

text \<open>\<^verbatim>\<open>validate.Struct\<close>: \<^verbatim>\<open>required\<close> rejects the zero value; the errors name field and rule.\<close>

definition validate_login :: "'f extern \<Rightarrow> login_data \<Rightarrow> (string \<times> string) list" where
  "validate_login E d =
     (if login_Email d = [] then [(''Email'', ''required'')]
      else if \<not> validate_email E (login_Email d) then [(''Email'', ''email'')] else []) @
     (if login_Password d = [] then [(''Password'', ''required'')] else [])"

definition LoginHandler ::
  "'f extern \<Rightarrow> ambient \<Rightarrow> login_data option \<Rightarrow> 'f database \<Rightarrow> unit response" where
  "LoginHandler E A parsed db =
     (case parsed of
        None \<Rightarrow> JSON 400 [''success'' \<mapsto> VBool False, ''message'' \<mapsto> VString ''Cannot parse JSON'']
      | Some userData \<Rightarrow>
          if validate_login E userData \<noteq> [] then
            JSON 400 [''success'' \<mapsto> VBool False, ''message'' \<mapsto> VString ''Invalid input data'',
                      ''errors'' \<mapsto> VErrors (validate_login E userData)]
          else
            (case First (db_fails A 0) (\<lambda>u. User_Email u = login_Email userData) (users db) of
               Inl _ \<Rightarrow> JSON StatusNotFound [''error'' \<mapsto> VString ''User not found'']
             | Inr user \<Rightarrow>
                 (case CompareHashAndPassword E (User_Password user) (login_Password userData) of
                    Some _ \<Rightarrow> JSON StatusBadRequest [''error'' \<mapsto> VString ''Incorrect password'']
                  | None \<Rightarrow>
                      (case CreateToken (HS256 E) (environment A) (time_Now A) (User_ID user) of
                         Inl _ \<Rightarrow>
                           JSON StatusInternalServerError [''error'' \<mapsto> VString ''Cannot log in'']
                       | Inr token \<Rightarrow>
                           JSON StatusOK [''success'' \<mapsto> VBool True, ''token'' \<mapsto> VToken token]))))"

subsection \<open>RegisterHandler\<close>

record register_data =
  register_FirstName :: string
  register_LastName :: string
  register_Email :: string
  register_Password :: string
  register_Role :: string

definition validate_register :: "'f extern \<Rightarrow> register_data \<Rightarrow> (string \<times> string) list" where
  "validate_register E d =
     (if register_FirstName d = [] then [(''FirstName'', ''required'')] else []) @
     (if register_LastName d = [] then [(''LastName'', ''required'')] else []) @
     (if register_Email d = [] then [(''Email'', ''required'')]
      else if \<not> validate_email E (register_Email d) then [(''Email'', ''email'')] else []) @
     (if register_Password d = [] then [(''Password'', ''required'')] else []) @
     (if register_Role d = [] then [(''Role'', ''required'')] else [])"

text \<open>
  The struct literal \<^verbatim>\<open>database.User{UserID: ..., ..., Role: ...}\<close>: the primary key and
  the active flag are left at their zero values.
\<close>

definition newUser :: "uint \<Rightarrow> register_data \<Rightarrow> bytes \<Rightarrow> user" where
  "newUser userID userData hashedPassword =
     \<lparr>User_ID = 0,
      User_UserID = userID,
      User_FirstName = register_FirstName userData,
      User_LastName = register_LastName userData,
      User_Email = register_Email userData,
      User_Password = hashedPassword,
      User_Role = register_Role userData,
      User_Active = False\<rparr>"

definition RegisterHandler ::
  "'f extern \<Rightarrow> ambient \<Rightarrow> register_data option \<Rightarrow> 'f database \<Rightarrow> unit response \<times> 'f database" where
  "RegisterHandler E A parsed db =
     (case parsed of
        None \<Rightarrow>
          (JSON 400 [''success'' \<mapsto> VBool False, ''message'' \<mapsto> VString ''Cannot parse JSON''], db)
      | Some userData \<Rightarrow>
          if validate_register E userData \<noteq> [] then
            (JSON 400 [''success'' \<mapsto> VBool False, ''message'' \<mapsto> VString ''Invalid input data'',
                       ''errors'' \<mapsto> VErrors (validate_register E userData)], db)
          else
            (case First (db_fails A 0) (\<lambda>u. User_Email u = register_Email userData) (users db) of
               Inr _ \<Rightarrow> (JSON StatusConflict [''error'' \<mapsto> VString ''User already exists''], db)
             | Inl _ \<Rightarrow>
                 let userID = (word_of_int (rand_Intn_10000 A) :: uint) in
                 (case GenerateFromPassword E (crypto_rand A) (register_Password userData) 10 of
                    Inl _ \<Rightarrow>
                      (JSON 500 [''success'' \<mapsto> VBool False,
                                 ''message'' \<mapsto> VString ''Cannot hash password''], db)
                  | Inr hashedPassword \<Rightarrow>
                      (case Create_user (db_fails A 1) (newUser userID userData hashedPassword) db of
                         Inl _ \<Rightarrow>
                           (JSON StatusConflict [''error'' \<mapsto> VString ''User registration failed''], db)
                       | Inr (created, db') \<Rightarrow>
                           let autoGeneratedID = User_ID created in
                           (case CreateToken (HS256 E) (environment A) (time_Now A) autoGeneratedID of
                              Inl _ \<Rightarrow>
                                (JSON StatusInternalServerError
                                   [''error'' \<mapsto> VString ''Cannot log in''], db')
                            | Inr token \<Rightarrow>
                                (JSON StatusOK [''success'' \<mapsto> VBool True, ''token'' \<mapsto> VToken token],
                                 db'))))))"

subsection \<open>DeactivateAccountHandler\<close>

definition DeactivateAccountHandler ::
  "ambient \<Rightarrow> string \<Rightarrow> 'f database \<Rightarrow> unit response \<times> 'f database" where
  "DeactivateAccountHandler A idStr db =
     (case ParseUint idStr 32 of
        Inl _ \<Rightarrow> (JSON StatusBadRequest [''error'' \<mapsto> VString ''Invalid ID format''], db)
      | Inr idn \<Rightarrow>
          (case First (db_fails A 0) (\<lambda>u. User_ID u = of_nat idn) (users db) of
             Inl _ \<Rightarrow> (JSON StatusNotFound [''error'' \<mapsto> VString ''User not found''], db)
           | Inr user \<Rightarrow>
               (case Update_active (db_fails A 1) user False db of
                  Inl _ \<Rightarrow>
                    (JSON StatusInternalServerError
                       [''error'' \<mapsto> VString ''Cannot deactivate user''], db)
                | Inr db' \<Rightarrow>
                    (\<lparr>status = StatusOK,
                      body = JSONMap [''success'' \<mapsto> VBool True,
                                      ''message'' \<mapsto> VString ''User deactivated successfully''],
                      cookies = [\<lparr>cookie_Name = ''jwt'', cookie_Value = [],
                                  cookie_Expires = time_Now A, cookie_HTTPOnly = True\<rparr>]\<rparr>,
                     db'))))"

subsection \<open>GetUserNameHandler\<close>

definition GetUserNameHandler ::
  "ambient \<Rightarrow> jwt_token option \<Rightarrow> 'f database \<Rightarrow> go_fault + unit response" where
  "GetUserNameHandler A locals_user db =
     (case token_user_id locals_user of
        Inl fault \<Rightarrow> Inl fault
      | Inr userID \<Rightarrow>
          Inr (case First (db_fails A 0) (\<lambda>u. User_ID u = userID) (users db) of
                 Inl _ \<Rightarrow> JSON StatusNotFound [''error'' \<mapsto> VString ''User not found'']
               | Inr user \<Rightarrow>
                   JSON StatusOK [''success'' \<mapsto> VBool True,
                                  ''name'' \<mapsto> VString (User_FirstName user)]))"

text \<open>
  Modelled from the spec: the route table that puts the verifying middleware in front of
  \<^verbatim>\<open>GetUserNameHandler\<close> is outside \<^verbatim>\<open>routes/handlers.go\<close>. Section 6 of the specification:
  \<^verbatim>\<open>Authenticate(rawRequest) -> Identity | AuthError\<close> is called once at the start of a
  protected request, and the handler runs only on success.
\<close>

definition Authenticate :: "'f extern \<Rightarrow> ambient \<Rightarrow> bearer \<Rightarrow> AuthError + jwt_token" where
  "Authenticate E A b =
     Verify (HS256 E) (Getenv (environment A) ''JWT_SECRET'') (time_Now A) b"

definition protected_GetUserName ::
  "'f extern \<Rightarrow> ambient \<Rightarrow> bearer \<Rightarrow> 'f database \<Rightarrow> AuthError + (go_fault + unit response)" where
  "protected_GetUserName E A b db =
     (case Authenticate E A b of
        Inl err \<Rightarrow> Inl err
      | Inr token \<Rightarrow> Inr (GetUserNameHandler A (Some token) db))"

subsection \<open>UpdateProfile\<close>

definition UpdateProfile ::
  "'f extern \<Rightarrow> ambient \<Rightarrow> string \<Rightarrow> user option \<Rightarrow> 'f database \<Rightarrow> unit response \<times> 'f database" where
  "UpdateProfile E A idStr parsed db =
     (case ParseUint idStr 32 of
        Inl _ \<Rightarrow> (JSON StatusBadRequest [''error'' \<mapsto> VString ''Invalid ID format''], db)
      | Inr idn \<Rightarrow>
          (case First (db_fails A 0) (\<lambda>u. User_ID u = of_nat idn) (users db) of
             Inl _ \<Rightarrow> (JSON StatusNotFound [''error'' \<mapsto> VString ''User not found''], db)
           | Inr user \<Rightarrow>
               (case parsed of
                  None \<Rightarrow>
                    (JSON 400 [''success'' \<mapsto> VBool False,
                               ''message'' \<mapsto> VString ''Cannot parse JSON''], db)
                | Some userData \<Rightarrow>
                    let user1 = (if User_FirstName userData \<noteq> []
                                 then user\<lparr>User_FirstName := User_FirstName userData\<rparr> else user);
                        user2 = (if User_LastName userData \<noteq> []
                                 then user1\<lparr>User_LastName := User_LastName userData\<rparr> else user1);
                        user3 = (if User_Email userData \<noteq> []
                                 then user2\<lparr>User_Email := User_Email userData\<rparr> else user2)
                    in (case (if length (User_Password userData) > 0
                              then (case GenerateFromPassword E (crypto_rand A)
                                           (User_Password userData) 10 of
                                      Inl err \<Rightarrow> Inl err
                                    | Inr hashedPassword \<Rightarrow>
                                        Inr (user3\<lparr>User_Password := hashedPassword\<rparr>))
                              else Inr user3) of
                          Inl _ \<Rightarrow>
                            (JSON 500 [''success'' \<mapsto> VBool False,
                                       ''message'' \<mapsto> VString ''Cannot hash password''], db)
                        | Inr user4 \<Rightarrow>
                            (case Save_user (db_fails A 1) user4 db of
                               Inl _ \<Rightarrow>
                                 (JSON StatusInternalServerError
                                    [''error'' \<mapsto> VString ''Cannot update user's profile''], db)
                             | Inr db' \<Rightarrow>
                                 (JSON StatusOK
                                    [''success'' \<mapsto> VBool True,
                                     ''message'' \<mapsto> VString ''User profile updated successfully''],
                                  db'))))))"

subsection \<open>The cart\<close>

record add_to_cart_data =
  add_BookID :: uint
  add_Quantity :: uint

definition validate_add_to_cart :: "add_to_cart_data \<Rightarrow> (string \<times> string) list" where
  "validate_add_to_cart d =
     (if add_BookID d = 0 then [(''BookID'', ''required'')] else []) @
     (if add_Quantity d = 0 then [(''Quantity'', ''required'')] else [])"

definition AddToCartHandler ::
  "'f extern \<Rightarrow> ambient \<Rightarrow> jwt_token option \<Rightarrow> add_to_cart_data option \<Rightarrow> 'f database \<Rightarrow>
     go_fault + 'f cart_item response \<times> 'f database" where
  "AddToCartHandler E A locals_user parsed db =
     (case token_user_id locals_user of
        Inl fault \<Rightarrow> Inl fault
      | Inr userID \<Rightarrow>
          Inr (case parsed of
                 None \<Rightarrow> (JSON StatusBadRequest [''error'' \<mapsto> VString ''Invalid input data''], db)
               | Some cartItem \<Rightarrow>
                   if validate_add_to_cart cartItem \<noteq> [] then
                     (JSON StatusBadRequest
                        [''error'' \<mapsto> VString ''Invalid input data'',
                         ''errors'' \<mapsto> VErrors (validate_add_to_cart cartItem)], db)
                   else
                     (case First (db_fails A 0)
                             (\<lambda>ci. CartItem_UserID ci = userID \<and> CartItem_BookID ci = add_BookID cartItem)
                             (cart_items db) of
                        Inr existingCartItem \<Rightarrow>
                          let existing1 = existingCartItem
                                \<lparr>CartItem_Quantity := CartItem_Quantity existingCartItem + add_Quantity cartItem\<rparr>
                          in (case First (db_fails A 1) (\<lambda>b. Book_ID b = add_BookID cartItem) (books db) of
                                Inl _ \<Rightarrow>
                                  (JSON StatusInternalServerError
                                     [''error'' \<mapsto> VString ''Failed to fetch book details''], db)
                              | Inr book \<Rightarrow>
                                  let existing2 = existing1
                                        \<lparr>CartItem_Subtotal :=
                                           float64_mul E (float64_of_uint E (CartItem_Quantity existing1))
                                             (Book_Price book)\<rparr>
                                  in (case Save_cart_item (db_fails A 2) existing2 db of
                                        Inl _ \<Rightarrow>
                                          (JSON StatusInternalServerError
                                             [''error'' \<mapsto> VString ''Failed to update cart''], db)
                                      | Inr db' \<Rightarrow> (JSON_struct existing2, db')))
                      | Inl _ \<Rightarrow>
                          (case First (db_fails A 3) (\<lambda>b. Book_ID b = add_BookID cartItem) (books db) of
                             Inl _ \<Rightarrow>
                               (JSON StatusInternalServerError
                                  [''error'' \<mapsto> VString ''Failed to fetch book details''], db)
                           | Inr book \<Rightarrow>
                               let newCartItem =
                                     \<lparr>CartItem_ID = 0,
                                      CartItem_UserID = userID,
                                      CartItem_BookID = add_BookID cartItem,
                                      CartItem_Quantity = add_Quantity cartItem,
                                      CartItem_Subtotal =
                                        float64_mul E (float64_of_uint E (add_Quantity cartItem))
                                          (Book_Price book)\<rparr>
                               in (case Create_cart_item (db_fails A 4) newCartItem db of
                                     Inl _ \<Rightarrow>
                                       (JSON StatusInternalServerError
                                          [''error'' \<mapsto> VString ''Failed to add to cart''], db)
                                   | Inr (created, db') \<Rightarrow> (JSON_struct created, db'))))))"

text \<open>
  \<^verbatim>\<open>UpdateCartItemQuantityHandler\<close> passes the URL parameter \<^verbatim>\<open>book_id\<close>, a string, to the
  query; a text that the database does not read as an integer makes the query fail.
\<close>

definition validate_update_quantity :: "uint \<Rightarrow> (string \<times> string) list" where
  "validate_update_quantity q = (if q = 0 then [(''Quantity'', ''required'')] else [])"

definition UpdateCartItemQuantityHandler ::
  "'f extern \<Rightarrow> ambient \<Rightarrow> jwt_token option \<Rightarrow> string \<Rightarrow> uint option \<Rightarrow> 'f database \<Rightarrow>
     go_fault + 'f cart_item response \<times> 'f database" where
  "UpdateCartItemQuantityHandler E A locals_user bookID parsed db =
     (case token_user_id locals_user of
        Inl fault \<Rightarrow> Inl fault
      | Inr userID \<Rightarrow>
          Inr (case parsed of
                 None \<Rightarrow> (JSON StatusBadRequest [''error'' \<mapsto> VString ''Invalid input data''], db)
               | Some quantity \<Rightarrow>
                   if validate_update_quantity quantity \<noteq> [] then
                     (JSON StatusBadRequest
                        [''error'' \<mapsto> VString ''Invalid input data'',
                         ''errors'' \<mapsto> VErrors (validate_update_quantity quantity)], db)
                   else
                     (case First (db_fails A 0 \<or> sql_integer E bookID = None)
                             (\<lambda>ci. CartItem_UserID ci = userID \<and>
                                    Some (CartItem_BookID ci) = sql_integer E bookID)
                             (cart_items db) of
                        Inl _ \<Rightarrow> (JSON StatusNotFound [''error'' \<mapsto> VString ''Cart item not found''], db)
                      | Inr cartItem \<Rightarrow>
                          let cartItem1 = cartItem\<lparr>CartItem_Quantity := quantity\<rparr>
                          in (case Save_cart_item (db_fails A 1) cartItem1 db of
                                Inl _ \<Rightarrow>
                                  (JSON StatusInternalServerError
                                     [''error'' \<mapsto> VString ''Failed to update cart item quantity''], db)
                              | Inr db' \<Rightarrow> (JSON_struct cartItem1, db')))))"

section \<open>A small instance\<close>

text \<open>
  Concrete externals, surroundings and data, on which the theorems below are run. The
  password functions are stand-ins with bcrypt's interface (the "hash" is the salt
  followed by the reversed password); the MAC returns its key, which shows the key a
  token was signed with; float64 values are integers.
\<close>


definition demo_extern :: "int extern" where
  "demo_extern =
     \<lparr>GenerateFromPassword = (\<lambda>salt pw cost. Inr (salt @ rev pw)),
      CompareHashAndPassword =
        (\<lambda>h pw. if drop (length h - length pw) h = rev pw then None
                 else Some ErrMismatchedHashAndPassword),
      HS256 = (\<lambda>k m. Inr k),
      validate_email = (\<lambda>s. CHR ''@'' \<in> set s),
      sql_integer = (\<lambda>s. if s = [] then None else map_option of_nat (parse_digits 0 s)),
      float64_of_uint = uint,
      float64_mul = (*)\<rparr>"

definition demo_ambient :: ambient where
  "demo_ambient =
     \<lparr>environment = [''JWT_SECRET'' \<mapsto> ''s3cret''],
      time_Now = 0,
      rand_Intn_10000 = 4711,
      crypto_rand = ''salt'',
      db_fails = (\<lambda>_. False)\<rparr>"

definition alice :: user where
  "alice =
     \<lparr>User_ID = 1, User_UserID = 4711, User_FirstName = ''Alice'', User_LastName = ''A'',
      User_Email = ''alice@example.org'', User_Password = ''salt321terces'',
      User_Role = ''customer'', User_Active = True\<rparr>"

definition demo_db :: "int database" where
  "demo_db = \<lparr>users = [alice], users_seq = 1, books = [], cart_items = [], cart_items_seq = 0\<rparr>"

definition demo_token :: signed_jwt where
  "demo_token =
     \<lparr>jws_header = [''typ'' \<mapsto> ''JWT'', ''alg'' \<mapsto> ''HS256''],
      jws_payload = [''user_id'' \<mapsto> JNumber 1, ''exp'' \<mapsto> JNumber 86400],
      jws_signature = ''s3cret''\<rparr>"

definition bob_data :: register_data where
  "bob_data =
     \<lparr>register_FirstName = ''Bob'', register_LastName = ''B'',
      register_Email = ''bob@example.org'', register_Password = ''secret123'',
      register_Role = ''customer''\<rparr>"

definition bob :: user where
  "bob =
     \<lparr>User_ID = 2, User_UserID = 4711, User_FirstName = ''Bob'', User_LastName = ''B'',
      User_Email = ''bob@example.org'', User_Password = ''salt321terces'',
      User_Role = ''customer'', User_Active = False\<rparr>"

definition bob_token :: signed_jwt where
  "bob_token =
     \<lparr>jws_header = [''typ'' \<mapsto> ''JWT'', ''alg'' \<mapsto> ''HS256''],
      jws_payload = [''user_id'' \<mapsto> JNumber 2, ''exp'' \<mapsto> JNumber 86400],
      jws_signature = ''s3cret''\<rparr>"

definition new_password :: user where
  "new_password =
     \<lparr>User_ID = 0, User_UserID = 0, User_FirstName = [], User_LastName = [],
      User_Email = [], User_Password = ''newpass'', User_Role = [], User_Active = False\<rparr>"

definition demo_locals :: jwt_token where
  "demo_locals =
     \<lparr>Header = jws_header demo_token,
      Claims = map_option claim_of_json \<circ> jws_payload demo_token\<rparr>"

definition cart_db :: "int database" where
  "cart_db =
     \<lparr>users = [alice], users_seq = 1,
      books = [\<lparr>Book_ID = 7, Book_Price = 10\<rparr>],
      cart_items = [\<lparr>CartItem_ID = 1, CartItem_UserID = 1, CartItem_BookID = 7,
                     CartItem_Quantity = 2, CartItem_Subtotal = 20\<rparr>],
      cart_items_seq = 1\<rparr>"

definition cart_item_3 :: "int cart_item" where
  "cart_item_3 =
     \<lparr>CartItem_ID = 1, CartItem_UserID = 1, CartItem_BookID = 7,
      CartItem_Quantity = 3, CartItem_Subtotal = 30\<rparr>"

definition cart_item_5 :: "int cart_item" where
  "cart_item_5 =
     \<lparr>CartItem_ID = 1, CartItem_UserID = 1, CartItem_BookID = 7,
      CartItem_Quantity = 5, CartItem_Subtotal = 20\<rparr>"

section \<open>Token issuance\<close>

lemma Unix_Add_day: "Unix (Add now (Hour * 24)) = Unix now + 86400"
proof -
  have "(now + 3600 * 1000000000 * 24) div 1000000000 = now div 1000000000 + 86400"
    by simp
  then show ?thesis by (simp add: Unix_def Add_def Hour_def Second_def)
qed

lemma CreateToken_payload_exp:
  "CreateToken_payload now u ''exp'' = Some (GoInt64 (Unix now + 86400))"
  by (simp add: CreateToken_payload_def Unix_Add_day)

lemma CreateToken_payload_user_id:
  "CreateToken_payload now u ''user_id'' = Some (GoUint u)"
  by (simp add: CreateToken_payload_def)

lemma CreateToken_payload_dom:
  "dom (CreateToken_payload now u) = {''user_id'', ''exp''}"
  by (auto simp: CreateToken_payload_def)

lemma CreateToken_Inr_payload:
  "CreateToken mac env now u = Inr t \<Longrightarrow>
     jws_payload t = map_option json_of_claim \<circ> CreateToken_payload now u"
  by (auto simp: CreateToken_def SignedString_def SigningString_def NewWithClaims_def Let_def
      split: sum.splits)

lemma CreateToken_Inr_signature:
  "CreateToken mac env now u = Inr t \<Longrightarrow>
     mac (Getenv env ''JWT_SECRET'') (jws_header t, jws_payload t) = Inr (jws_signature t)"
  by (auto simp: CreateToken_def SignedString_def SigningString_def NewWithClaims_def Let_def
      split: sum.splits)

lemma CreateToken_Inr_user_id:
  "CreateToken mac env now u = Inr t \<Longrightarrow> jws_payload t ''user_id'' = Some (JNumber (uint u))"
  by (drule CreateToken_Inr_payload) (simp add: CreateToken_payload_user_id json_of_claim_def)

lemma CreateToken_Inr_exp:
  "CreateToken mac env now u = Inr t \<Longrightarrow> jws_payload t ''exp'' = Some (JNumber (Unix now + 86400))"
  by (drule CreateToken_Inr_payload) (simp add: CreateToken_payload_exp json_of_claim_def)

text \<open>
  C7. Every token that \<^verbatim>\<open>CreateToken\<close> produces carries the expiry
  \<open>exp = Unix(now) + 86400\<close> seconds, where \<open>now\<close> is the time of issuance: the
  lifetime is the constant 24 hours, the same for every user and every time.
\<close>

theorem CreateToken_expiry_24h:
  "CreateToken mac env now u = Inr t \<Longrightarrow>
     jws_payload t ''exp'' = Some (JNumber (Unix now + 24 * 3600))"
  by (drule CreateToken_Inr_exp) simp

text \<open>
  C3 (as amended). The signed payload holds exactly two claims: the subject
  \<open>user_id = u\<close> and the expiry \<open>exp\<close>, 24 hours after issuance. No issuance
  timestamp is written. The signature is the MAC, under the key of the environment, of
  the header and this payload.
\<close>

theorem CreateToken_signed_payload:
  "CreateToken mac env now u = Inr t \<Longrightarrow>
     dom (jws_payload t) = {''user_id'', ''exp''} \<and>
     jws_payload t ''user_id'' = Some (JNumber (uint u)) \<and>
     jws_payload t ''exp'' = Some (JNumber (Unix now + 86400)) \<and>
     mac (Getenv env ''JWT_SECRET'') (jws_header t, jws_payload t) = Inr (jws_signature t)"
proof -
  assume a: "CreateToken mac env now u = Inr t"
  have "dom (jws_payload t) = dom (CreateToken_payload now u)"
    using CreateToken_Inr_payload [OF a] by (auto simp: dom_def)
  then have d: "dom (jws_payload t) = {''user_id'', ''exp''}"
    by (simp add: CreateToken_payload_dom)
  from d CreateToken_Inr_user_id [OF a] CreateToken_Inr_exp [OF a]
    CreateToken_Inr_signature [OF a]
  show ?thesis by simp
qed

text \<open>
  The claim as stated fails: a token issued for user 7 at second 1000 carries the two
  values 7 and 87400 and nothing else; there is no \<^verbatim>\<open>iat\<close> claim and the issuance
  time 1000 is no value of the payload.
\<close>

theorem CreateToken_payload_without_issuedAt:
  "CreateToken_payload (1000 * Second) 7 ''iat'' = None \<and>
   ran (CreateToken_payload (1000 * Second) 7) = {GoUint 7, GoInt64 87400} \<and>
   GoInt64 1000 \<notin> ran (CreateToken_payload (1000 * Second) 7)"
  by (auto simp: CreateToken_payload_def Unix_def Add_def Hour_def Second_def)

theorem CreateToken_signed_payload_witness:
  "CreateToken (\<lambda>k m. Inr k) [''JWT_SECRET'' \<mapsto> ''s3cret''] 0 7 =
     Inr \<lparr>jws_header = [''typ'' \<mapsto> ''JWT'', ''alg'' \<mapsto> ''HS256''],
          jws_payload = [''user_id'' \<mapsto> JNumber 7, ''exp'' \<mapsto> JNumber 86400],
          jws_signature = ''s3cret''\<rparr> \<and>
   dom [''user_id'' \<mapsto> JNumber 7, ''exp'' \<mapsto> JNumber 86400] = {''user_id'', ''exp''}"
proof -
  have c: "CreateToken (\<lambda>k m. Inr k) [''JWT_SECRET'' \<mapsto> ''s3cret''] 0 7 =
     Inr \<lparr>jws_header = [''typ'' \<mapsto> ''JWT'', ''alg'' \<mapsto> ''HS256''],
          jws_payload = [''user_id'' \<mapsto> JNumber 7, ''exp'' \<mapsto> JNumber 86400],
          jws_signature = ''s3cret''\<rparr>"
    by (simp add: CreateToken_def SignedString_def SigningString_def NewWithClaims_def
        Getenv_def CreateToken_payload_def Unix_def Add_def Hour_def Second_def
        json_of_claim_def fun_eq_iff)
  from CreateToken_signed_payload [OF c] c show ?thesis by simp
qed

theorem CreateToken_expiry_24h_witness:
  "CreateToken (\<lambda>k m. Inr k) [''JWT_SECRET'' \<mapsto> ''s3cret''] (1000 * Second) 7 =
     Inr \<lparr>jws_header = [''typ'' \<mapsto> ''JWT'', ''alg'' \<mapsto> ''HS256''],
          jws_payload = [''user_id'' \<mapsto> JNumber 7, ''exp'' \<mapsto> JNumber 87400],
          jws_signature = ''s3cret''\<rparr> \<and>
   Unix (1000 * Second) + 24 * 3600 = 87400"
proof -
  have c: "CreateToken (\<lambda>k m. Inr k) [''JWT_SECRET'' \<mapsto> ''s3cret''] (1000 * Second) 7 =
     Inr \<lparr>jws_header = [''typ'' \<mapsto> ''JWT'', ''alg'' \<mapsto> ''HS256''],
          jws_payload = [''user_id'' \<mapsto> JNumber 7, ''exp'' \<mapsto> JNumber 87400],
          jws_signature = ''s3cret''\<rparr>"
    by (simp add: CreateToken_def SignedString_def SigningString_def NewWithClaims_def
        Getenv_def CreateToken_payload_def Unix_def Add_def Hour_def Second_def
        json_of_claim_def fun_eq_iff)
  from CreateToken_expiry_24h [OF c] c show ?thesis by (simp add: Unix_def Second_def)
qed

text \<open>
  C2 (as amended). \<^verbatim>\<open>CreateToken\<close> reads \<^verbatim>\<open>JWT_SECRET\<close> from the environment at every
  call. When the variable is unset the key is the empty byte string: the call does not
  fail for that reason, and whenever the MAC itself succeeds a token is issued whose
  signature is the MAC under the empty key. A login with the right password is then
  answered with status 200 and that token.
\<close>

theorem CreateToken_without_secret:
  assumes "environment A ''JWT_SECRET'' = None"
  shows "CreateToken mac (environment A) now u =
           (case mac [] (SigningString (NewWithClaims ''HS256'' (CreateToken_payload now u))) of
              Inl err \<Rightarrow> Inl err
            | Inr sig \<Rightarrow>
                Inr \<lparr>jws_header = [''typ'' \<mapsto> ''JWT'', ''alg'' \<mapsto> ''HS256''],
                     jws_payload = map_option json_of_claim \<circ> CreateToken_payload now u,
                     jws_signature = sig\<rparr>) \<and>
         (validate_login E d = [] \<and>
          First (db_fails A 0) (\<lambda>u. User_Email u = login_Email d) (users db) = Inr user \<and>
          CompareHashAndPassword E (User_Password user) (login_Password d) = None \<and>
          HS256 E [] (SigningString (NewWithClaims ''HS256''
            (CreateToken_payload (time_Now A) (User_ID user)))) = Inr sig \<longrightarrow>
            LoginHandler E A (Some d) db =
              JSON StatusOK
                [''success'' \<mapsto> VBool True,
                 ''token'' \<mapsto>
                   VToken \<lparr>jws_header = [''typ'' \<mapsto> ''JWT'', ''alg'' \<mapsto> ''HS256''],
                           jws_payload = map_option json_of_claim \<circ>
                             CreateToken_payload (time_Now A) (User_ID user),
                           jws_signature = sig\<rparr>])"
proof -
  have c: "\<And>mac now u. CreateToken mac (environment A) now u =
           (case mac [] (SigningString (NewWithClaims ''HS256'' (CreateToken_payload now u))) of
              Inl err \<Rightarrow> Inl err
            | Inr sig \<Rightarrow>
                Inr \<lparr>jws_header = [''typ'' \<mapsto> ''JWT'', ''alg'' \<mapsto> ''HS256''],
                     jws_payload = map_option json_of_claim \<circ> CreateToken_payload now u,
                     jws_signature = sig\<rparr>)"
    using assms
    by (simp add: CreateToken_def SignedString_def SigningString_def NewWithClaims_def
        Getenv_def split: sum.splits)
  show ?thesis
    by (intro conjI impI, rule c) (simp add: LoginHandler_def c)
qed

text \<open>
  The claim as stated fails: in an environment without \<^verbatim>\<open>JWT_SECRET\<close>,
  \<^verbatim>\<open>CreateToken\<close> runs and returns a token. The MAC used here returns the key it was
  given, which shows the key: the empty string.
\<close>

theorem CreateToken_empty_key_token:
  "CreateToken (\<lambda>k m. Inr k) Map.empty 0 1 =
     Inr \<lparr>jws_header = [''typ'' \<mapsto> ''JWT'', ''alg'' \<mapsto> ''HS256''],
          jws_payload = [''user_id'' \<mapsto> JNumber 1, ''exp'' \<mapsto> JNumber 86400],
          jws_signature = []\<rparr>"
  by (simp add: CreateToken_def SignedString_def SigningString_def NewWithClaims_def
      Getenv_def CreateToken_payload_def Unix_def Add_def Hour_def Second_def
      json_of_claim_def fun_eq_iff)

theorem CreateToken_without_secret_witness:
  "environment (demo_ambient\<lparr>environment := Map.empty\<rparr>) ''JWT_SECRET'' = None \<and>
   validate_login demo_extern
     \<lparr>login_Email = ''alice@example.org'', login_Password = ''secret123''\<rparr> = [] \<and>
   First (db_fails (demo_ambient\<lparr>environment := Map.empty\<rparr>) 0)
     (\<lambda>u. User_Email u = ''alice@example.org'') (users demo_db) = Inr alice \<and>
   CompareHashAndPassword demo_extern (User_Password alice) ''secret123'' = None \<and>
   CreateToken (HS256 demo_extern) Map.empty 0 1 =
     Inr \<lparr>jws_header = [''typ'' \<mapsto> ''JWT'', ''alg'' \<mapsto> ''HS256''],
          jws_payload = map_option json_of_claim \<circ> CreateToken_payload 0 1,
          jws_signature = []\<rparr> \<and>
   LoginHandler demo_extern (demo_ambient\<lparr>environment := Map.empty\<rparr>)
       (Some \<lparr>login_Email = ''alice@example.org'', login_Password = ''secret123''\<rparr>) demo_db =
     JSON StatusOK
       [''success'' \<mapsto> VBool True,
        ''token'' \<mapsto>
          VToken \<lparr>jws_header = [''typ'' \<mapsto> ''JWT'', ''alg'' \<mapsto> ''HS256''],
                  jws_payload = map_option json_of_claim \<circ> CreateToken_payload 0 1,
                  jws_signature = []\<rparr>]"
proof -
  let ?A = "demo_ambient\<lparr>environment := Map.empty\<rparr>"
  let ?d = "\<lparr>login_Email = ''alice@example.org'', login_Password = ''secret123''\<rparr>"
  have e: "environment ?A ''JWT_SECRET'' = None"
    by simp
  have v: "validate_login demo_extern ?d = []"
    by (simp add: validate_login_def demo_extern_def)
  have f: "First (db_fails ?A 0) (\<lambda>u. User_Email u = ''alice@example.org'') (users demo_db) =
      Inr alice"
    by (simp add: First_def demo_ambient_def demo_db_def alice_def)
  have c: "CompareHashAndPassword demo_extern (User_Password alice) ''secret123'' = None"
    by (simp add: demo_extern_def alice_def)
  have m: "HS256 demo_extern [] (SigningString (NewWithClaims ''HS256''
      (CreateToken_payload (time_Now ?A) (User_ID alice)))) = Inr []"
    by (simp add: demo_extern_def)
  have i: "time_Now ?A = 0" "User_ID alice = 1" "HS256 demo_extern = (\<lambda>k m. Inr k)"
    by (simp_all add: demo_ambient_def alice_def demo_extern_def)
  note t = CreateToken_without_secret [OF e, where mac = "HS256 demo_extern" and now = 0 and u = 1
      and E = demo_extern and d = ?d and db = demo_db and user = alice and sig = "[]"]
  from e v f c t m i show ?thesis
    by simp
qed

section \<open>Round trip of the subject through the token\<close>

lemma bit_length_le: "n < 2 ^ k \<Longrightarrow> bit_length n \<le> k"
proof (induction n arbitrary: k rule: bit_length.induct)
  case (1 n)
  show ?case
  proof (cases "n = 0")
    case True
    then show ?thesis by (simp add: bit_length.simps)
  next
    case False
    then obtain j where k: "k = Suc j" using 1(2) by (cases k) auto
    have "n div 2 < 2 ^ j" using 1(2) k by auto
    then have "bit_length (n div 2) \<le> j" using 1(1) [OF False] by blast
    then show ?thesis using False k by (subst bit_length.simps) simp
  qed
qed

lemma bit_length_gt: "2 ^ k \<le> n \<Longrightarrow> k < bit_length n"
proof (induction n arbitrary: k rule: bit_length.induct)
  case (1 n)
  have n0: "n \<noteq> 0" using 1(2) by (cases "n = 0") auto
  show ?case
  proof (cases k)
    case 0
    then show ?thesis using n0 by (subst bit_length.simps) simp
  next
    case (Suc j)
    have "2 ^ j \<le> n div 2" using 1(2) Suc by auto
    then have "j < bit_length (n div 2)" using 1(1) [OF n0] by blast
    then show ?thesis using n0 Suc by (subst bit_length.simps) simp
  qed
qed

lemma bit_length_eq: "2 ^ k \<le> n \<Longrightarrow> n < 2 ^ Suc k \<Longrightarrow> bit_length n = Suc k"
  using bit_length_le [of n "Suc k"] bit_length_gt [of k n] by simp

lemma float64_of_nat_exact: "n \<le> 2 ^ 53 \<Longrightarrow> float64_of_nat n = n"
proof (cases "n < 2 ^ 53")
  case True
  then show ?thesis using bit_length_le [of n 53] by (simp add: float64_of_nat_def)
next
  case False
  assume "n \<le> 2 ^ 53"
  with False have n: "n = 2 ^ 53" by simp
  have "bit_length n = 54" using bit_length_eq [of 53 n] n by simp
  then show ?thesis by (simp add: float64_of_nat_def n)
qed

lemma float64_of_nat_2_53_1: "float64_of_nat 9007199254740993 = 9007199254740992"
proof -
  have "bit_length 9007199254740993 = 54"
    using bit_length_eq [of 53 9007199254740993] by simp
  then show ?thesis by (simp add: float64_of_nat_def)
qed

lemma uint_of_float64_exact:
  assumes "unat (u :: uint) \<le> 2 ^ 53"
  shows "uint_of_float64 (float64_of_int (uint u)) = Some u"
proof -
  have "float64_of_nat (unat u) = unat u" using assms by (rule float64_of_nat_exact)
  then have f: "float64_of_int (uint u) = uint u" by (simp add: float64_of_int_def)
  have "uint u < 2 ^ 64" using uint_bounded [of u] by simp
  then show ?thesis by (simp add: uint_of_float64_def f)
qed

lemma Verify_CreateToken:
  assumes "CreateToken mac env now u = Inr t"
  shows "Verify mac (Getenv env ''JWT_SECRET'') now (Bearer t) =
           Inr \<lparr>Header = jws_header t, Claims = map_option claim_of_json \<circ> jws_payload t\<rparr>"
proof -
  show ?thesis
    using CreateToken_Inr_signature [OF assms] CreateToken_Inr_exp [OF assms]
    by (simp add: Verify_def)
qed

text \<open>
  C5 (as amended). For every user ID \<open>u \<le> 2^53\<close>, the identity derived from the
  token just issued for \<open>u\<close> is \<open>u\<close>: the \<^verbatim>\<open>user_id\<close> written by \<^verbatim>\<open>CreateToken\<close> comes
  back unchanged from \<^verbatim>\<open>uint(claims["user_id"].(float64))\<close>.
\<close>

theorem Verify_derived_identity_roundtrip:
  assumes "unat u \<le> 2 ^ 53" and "CreateToken mac env now u = Inr t"
  shows "Verify_derived_identity mac env now u = Some u"
proof -
  note i = CreateToken_Inr_user_id [OF assms(2)]
  have "token_user_id
          (Some \<lparr>Header = jws_header t, Claims = map_option claim_of_json \<circ> jws_payload t\<rparr>) = Inr u"
    using i uint_of_float64_exact [OF assms(1)] by (simp add: token_user_id_def claim_of_json_def)
  then show ?thesis
    using assms(2) Verify_CreateToken [OF assms(2)] by (simp add: Verify_derived_identity_def)
qed

lemma CreateToken_echo:
  "CreateToken (\<lambda>k m. Inr k) [''JWT_SECRET'' \<mapsto> ''s3cret''] 0 u =
     Inr \<lparr>jws_header = [''typ'' \<mapsto> ''JWT'', ''alg'' \<mapsto> ''HS256''],
          jws_payload = [''user_id'' \<mapsto> JNumber (uint u), ''exp'' \<mapsto> JNumber 86400],
          jws_signature = ''s3cret''\<rparr>"
  by (simp add: CreateToken_def SignedString_def SigningString_def NewWithClaims_def
      Getenv_def CreateToken_payload_def Unix_def Add_def Hour_def Second_def
      json_of_claim_def fun_eq_iff)

theorem Verify_derived_identity_roundtrip_witness:
  "unat (42 :: uint) \<le> 2 ^ 53 \<and>
   Verify_derived_identity (\<lambda>k m. Inr k) [''JWT_SECRET'' \<mapsto> ''s3cret''] 0 42 = Some 42"
proof -
  have h: "unat (42 :: uint) \<le> 2 ^ 53" by simp
  from Verify_derived_identity_roundtrip [OF h CreateToken_echo] h show ?thesis by simp
qed

text \<open>
  The claim as stated fails beyond \<open>2^53\<close>: the subject \<open>2^53 + 1\<close> is written to the
  payload as the number 9007199254740993, decoded to the nearest float64, and the
  handler reads the user ID 9007199254740992.
\<close>

theorem Verify_derived_identity_rounds:
  "Verify_derived_identity (\<lambda>k m. Inr k) [''JWT_SECRET'' \<mapsto> ''s3cret''] 0 9007199254740993 =
     Some 9007199254740992"
proof -
  have f: "float64_of_int 9007199254740993 = 9007199254740992"
    by (simp add: float64_of_int_def float64_of_nat_2_53_1)
  show ?thesis
    by (simp add: Verify_derived_identity_def CreateToken_echo Verify_def token_user_id_def
        claim_of_json_def Getenv_def f uint_of_float64_def Unix_def Second_def)
qed

section \<open>Login failures\<close>

lemma First_None:
  assumes "\<forall>r\<in>set rows. \<not> cond r"
  shows "\<exists>e. First failed cond rows = Inl e"
proof -
  have "find cond rows = None" using assms by (simp add: find_None_iff)
  then show ?thesis by (simp add: First_def)
qed

lemma JSON_status [simp]: "status (JSON st m) = st"
  by (simp add: JSON_def)

text \<open>
  C1 (as amended). A well-formed login request for an email that no account has is
  answered with status 404 and the body \<^verbatim>\<open>{"error": "User not found"}\<close>; a request for
  an existing account whose password bcrypt rejects is answered with status 400 and the
  body \<^verbatim>\<open>{"error": "Incorrect password"}\<close>. The two responses differ.
\<close>

theorem LoginHandler_failures:
  assumes "validate_login E d = []"
  shows "((\<forall>u\<in>set (users db). User_Email u \<noteq> login_Email d) \<longrightarrow>
            LoginHandler E A (Some d) db =
              JSON StatusNotFound [''error'' \<mapsto> VString ''User not found'']) \<and>
         (First (db_fails A 0) (\<lambda>u. User_Email u = login_Email d) (users db) = Inr user \<and>
          CompareHashAndPassword E (User_Password user) (login_Password d) = Some err \<longrightarrow>
            LoginHandler E A (Some d) db =
              JSON StatusBadRequest [''error'' \<mapsto> VString ''Incorrect password'']) \<and>
         (JSON StatusNotFound [''error'' \<mapsto> VString ''User not found''] :: unit response) \<noteq>
           JSON StatusBadRequest [''error'' \<mapsto> VString ''Incorrect password'']"
proof (intro conjI impI)
  assume "\<forall>u\<in>set (users db). User_Email u \<noteq> login_Email d"
  then obtain e where "First (db_fails A 0) (\<lambda>u. User_Email u = login_Email d) (users db) = Inl e"
    using First_None [of "users db" "\<lambda>u. User_Email u = login_Email d" "db_fails A 0"] by auto
  then show "LoginHandler E A (Some d) db =
      JSON StatusNotFound [''error'' \<mapsto> VString ''User not found'']"
    using assms by (simp add: LoginHandler_def)
next
  assume "First (db_fails A 0) (\<lambda>u. User_Email u = login_Email d) (users db) = Inr user \<and>
          CompareHashAndPassword E (User_Password user) (login_Password d) = Some err"
  then show "LoginHandler E A (Some d) db =
      JSON StatusBadRequest [''error'' \<mapsto> VString ''Incorrect password'']"
    using assms by (simp add: LoginHandler_def)
next
  show "(JSON StatusNotFound [''error'' \<mapsto> VString ''User not found''] :: unit response) \<noteq>
           JSON StatusBadRequest [''error'' \<mapsto> VString ''Incorrect password'']"
    by (simp add: JSON_def Status_defs)
qed

text \<open>
  The claim as stated fails: with one account, for \<^verbatim>\<open>alice@example.org\<close>, a login for the
  unknown \<^verbatim>\<open>bob@example.org\<close> and a login for Alice with a wrong password are answered
  differently, so the caller learns which of the two accounts exists.
\<close>

theorem LoginHandler_distinguishes:
  "LoginHandler demo_extern demo_ambient
     (Some \<lparr>login_Email = ''bob@example.org'', login_Password = ''secret123''\<rparr>) demo_db =
     JSON 404 [''error'' \<mapsto> VString ''User not found''] \<and>
   LoginHandler demo_extern demo_ambient
     (Some \<lparr>login_Email = ''alice@example.org'', login_Password = ''wrong''\<rparr>) demo_db =
     JSON 400 [''error'' \<mapsto> VString ''Incorrect password''] \<and>
   LoginHandler demo_extern demo_ambient
     (Some \<lparr>login_Email = ''bob@example.org'', login_Password = ''secret123''\<rparr>) demo_db \<noteq>
   LoginHandler demo_extern demo_ambient
     (Some \<lparr>login_Email = ''alice@example.org'', login_Password = ''wrong''\<rparr>) demo_db"
  by (simp add: LoginHandler_def validate_login_def demo_extern_def demo_ambient_def demo_db_def
      alice_def First_def JSON_def Status_defs)


theorem LoginHandler_failures_witness:
  "validate_login demo_extern \<lparr>login_Email = ''alice@example.org'', login_Password = ''wrong''\<rparr> = [] \<and>
   First (db_fails demo_ambient 0) (\<lambda>u. User_Email u = ''alice@example.org'') (users demo_db) = Inr alice \<and>
   CompareHashAndPassword demo_extern (User_Password alice) ''wrong'' = Some ErrMismatchedHashAndPassword \<and>
   LoginHandler demo_extern demo_ambient
     (Some \<lparr>login_Email = ''alice@example.org'', login_Password = ''wrong''\<rparr>) demo_db =
     JSON StatusBadRequest [''error'' \<mapsto> VString ''Incorrect password''] \<and>
   validate_login demo_extern \<lparr>login_Email = ''bob@example.org'', login_Password = ''secret123''\<rparr> = [] \<and>
   list_all (\<lambda>u. User_Email u \<noteq> ''bob@example.org'') (users demo_db) \<and>
   LoginHandler demo_extern demo_ambient
     (Some \<lparr>login_Email = ''bob@example.org'', login_Password = ''secret123''\<rparr>) demo_db =
     JSON StatusNotFound [''error'' \<mapsto> VString ''User not found'']"
proof -
  let ?a = "\<lparr>login_Email = ''alice@example.org'', login_Password = ''wrong''\<rparr>"
  let ?b = "\<lparr>login_Email = ''bob@example.org'', login_Password = ''secret123''\<rparr>"
  have va: "validate_login demo_extern ?a = []"
    by (simp add: validate_login_def demo_extern_def)
  have vb: "validate_login demo_extern ?b = []"
    by (simp add: validate_login_def demo_extern_def)
  have f: "First (db_fails demo_ambient 0) (\<lambda>u. User_Email u = ''alice@example.org'') (users demo_db) = Inr alice"
    by (simp add: First_def demo_ambient_def demo_db_def alice_def)
  have c: "CompareHashAndPassword demo_extern (User_Password alice) ''wrong'' = Some ErrMismatchedHashAndPassword"
    by (simp add: demo_extern_def alice_def)
  have n: "\<forall>u\<in>set (users demo_db). User_Email u \<noteq> ''bob@example.org''"
    by (simp add: demo_db_def alice_def)
  from LoginHandler_failures [OF va, of demo_db demo_ambient alice ErrMismatchedHashAndPassword]
    LoginHandler_failures [OF vb, of demo_db demo_ambient alice ErrMismatchedHashAndPassword]
    va vb f c n
  show ?thesis by (simp add: list_all_iff)
qed


section \<open>Deactivated accounts and protected requests\<close>

lemma find_User_ID_map_active:
  "find (\<lambda>u. User_ID u = i) (map (\<lambda>u. u\<lparr>User_Active := act u\<rparr>) rows) =
     map_option (\<lambda>u. u\<lparr>User_Active := act u\<rparr>) (find (\<lambda>u. User_ID u = i) rows)"
  by (induction rows) auto

lemma GetUserNameHandler_active:
  assumes "users db' = map (\<lambda>u. u\<lparr>User_Active := act u\<rparr>) (users db)"
  shows "GetUserNameHandler A locals_user db' = GetUserNameHandler A locals_user db"
  using assms
  by (auto simp: GetUserNameHandler_def First_def find_User_ID_map_active
      split: sum.splits option.splits)

lemma DeactivateAccountHandler_users:
  "\<exists>act. users (snd (DeactivateAccountHandler A idStr db)) =
           map (\<lambda>u. u\<lparr>User_Active := act u\<rparr>) (users db)"
proof (cases "\<exists>user :: user. snd (DeactivateAccountHandler A idStr db) =
    db\<lparr>users := map (\<lambda>r. if User_ID r = User_ID user then r\<lparr>User_Active := False\<rparr> else r) (users db)\<rparr>")
  case True
  then obtain user :: user where u: "snd (DeactivateAccountHandler A idStr db) =
    db\<lparr>users := map (\<lambda>r. if User_ID r = User_ID user then r\<lparr>User_Active := False\<rparr> else r) (users db)\<rparr>"
    by blast
  have "map (\<lambda>r. if User_ID r = User_ID user then r\<lparr>User_Active := False\<rparr> else r) (users db) =
        map (\<lambda>u. u\<lparr>User_Active := (if User_ID u = User_ID user then False else User_Active u)\<rparr>) (users db)"
    by (rule map_cong) auto
  then have "users (snd (DeactivateAccountHandler A idStr db)) =
        map (\<lambda>u. u\<lparr>User_Active := (if User_ID u = User_ID user then False else User_Active u)\<rparr>) (users db)"
    using u by simp
  then show ?thesis
    by (rule exI [where x = "\<lambda>u. if User_ID u = User_ID user then False else User_Active u"])
next
  case False
  then have "snd (DeactivateAccountHandler A idStr db) = db"
    by (auto simp: DeactivateAccountHandler_def Update_active_def split: sum.splits if_splits)
  moreover have "users db = map (\<lambda>u. u\<lparr>User_Active := User_Active u\<rparr>) (users db)"
    by (induction "users db") auto
  ultimately have "users (snd (DeactivateAccountHandler A idStr db)) =
      map (\<lambda>u. u\<lparr>User_Active := User_Active u\<rparr>) (users db)" by simp
  then show ?thesis by (rule exI [where x = User_Active])
qed

text \<open>
  C4. A protected request whose token passes verification reaches the handler, and what
  the handler answers does not depend on the active flags in the user table: verification
  reads only the token, the key and the clock, and \<^verbatim>\<open>GetUserNameHandler\<close> looks the user
  up by primary key and never reads \<^verbatim>\<open>active\<close>. In particular the answer is the same
  after \<^verbatim>\<open>DeactivateAccountHandler\<close> has run, for as long as the token verifies.
\<close>

theorem protected_request_ignores_active:
  assumes "Authenticate E A b = Inr token"
  shows "(users db' = map (\<lambda>u. u\<lparr>User_Active := act u\<rparr>) (users db) \<longrightarrow>
            protected_GetUserName E A b db' = Inr (GetUserNameHandler A (Some token) db) \<and>
            protected_GetUserName E A b db = Inr (GetUserNameHandler A (Some token) db)) \<and>
         protected_GetUserName E A b (snd (DeactivateAccountHandler A' idStr db)) =
           protected_GetUserName E A b db"
proof -
  obtain act' where d: "users (snd (DeactivateAccountHandler A' idStr db)) =
      map (\<lambda>u. u\<lparr>User_Active := act' u\<rparr>) (users db)"
    using DeactivateAccountHandler_users by blast
  show ?thesis
    using assms GetUserNameHandler_active [OF d] GetUserNameHandler_active [of db' act db]
    by (auto simp: protected_GetUserName_def)
qed

lemma float64_of_int_small: "0 \<le> i \<Longrightarrow> i \<le> 2 ^ 53 \<Longrightarrow> float64_of_int i = i"
  using float64_of_nat_exact [of "nat i"] by (simp add: float64_of_int_def nat_le_iff)

lemma Authenticate_demo_token:
  "Authenticate demo_extern demo_ambient (Bearer demo_token) =
     Inr \<lparr>Header = jws_header demo_token,
          Claims = map_option claim_of_json \<circ> jws_payload demo_token\<rparr>"
  by (simp add: Authenticate_def Verify_def demo_extern_def demo_ambient_def demo_token_def
      Getenv_def Unix_def Second_def)

lemma token_user_id_demo_token:
  "token_user_id (Some \<lparr>Header = jws_header demo_token,
          Claims = map_option claim_of_json \<circ> jws_payload demo_token\<rparr>) = Inr 1"
  by (simp add: token_user_id_def demo_token_def claim_of_json_def float64_of_int_small
      uint_of_float64_def)

theorem protected_request_ignores_active_witness:
  "Authenticate demo_extern demo_ambient (Bearer demo_token) =
     Inr \<lparr>Header = jws_header demo_token,
          Claims = map_option claim_of_json \<circ> jws_payload demo_token\<rparr> \<and>
   map User_Active (users demo_db) = [True] \<and>
   map User_Active (users (snd (DeactivateAccountHandler demo_ambient ''1'' demo_db))) = [False] \<and>
   protected_GetUserName demo_extern demo_ambient (Bearer demo_token)
       (snd (DeactivateAccountHandler demo_ambient ''1'' demo_db)) =
     Inr (Inr (JSON StatusOK [''success'' \<mapsto> VBool True, ''name'' \<mapsto> VString ''Alice'']))"
proof -
  have d: "snd (DeactivateAccountHandler demo_ambient ''1'' demo_db) =
      demo_db\<lparr>users := [alice\<lparr>User_Active := False\<rparr>]\<rparr>"
    by (simp add: DeactivateAccountHandler_def ParseUint_def digit_val_def First_def
        Update_active_def demo_ambient_def demo_db_def alice_def)
  have h: "GetUserNameHandler demo_ambient
      (Some \<lparr>Header = jws_header demo_token,
             Claims = map_option claim_of_json \<circ> jws_payload demo_token\<rparr>) demo_db =
     Inr (JSON StatusOK [''success'' \<mapsto> VBool True, ''name'' \<mapsto> VString ''Alice''])"
    by (simp add: GetUserNameHandler_def token_user_id_demo_token First_def demo_ambient_def
        demo_db_def alice_def)
  have g: "protected_GetUserName demo_extern demo_ambient (Bearer demo_token) demo_db =
     Inr (Inr (JSON StatusOK [''success'' \<mapsto> VBool True, ''name'' \<mapsto> VString ''Alice'']))"
    by (simp add: protected_GetUserName_def Authenticate_demo_token h)
  from protected_request_ignores_active [OF Authenticate_demo_token,
      where db = demo_db and db' = demo_db and act = User_Active and A' = demo_ambient
        and idStr = "''1''"] g d Authenticate_demo_token
  show ?thesis by (simp add: demo_db_def alice_def)
qed

section \<open>Registration\<close>

text \<open>
  C10. After a successful registration the stored row is the struct literal with the key
  that the database has handed out; the token in the response has that key,
  \<^verbatim>\<open>newUser.ID\<close>, as its subject; the \<^verbatim>\<open>UserID\<close> field holds the number drawn by
  \<^verbatim>\<open>rand.Intn(10000)\<close>, which plays no part in the token.
\<close>

theorem RegisterHandler_token_subject:
  assumes "RegisterHandler E A (Some d) db = (r, db')" and "status r = StatusOK"
  shows "\<exists>h t. GenerateFromPassword E (crypto_rand A) (register_Password d) 10 = Inr h \<and>
           users db' =
             users db @ [(newUser (word_of_int (rand_Intn_10000 A)) d h)\<lparr>User_ID := users_seq db + 1\<rparr>] \<and>
           body r = JSONMap [''success'' \<mapsto> VBool True, ''token'' \<mapsto> VToken t] \<and>
           jws_payload t ''user_id'' = Some (JNumber (uint (User_ID (last (users db'))))) \<and>
           User_ID (last (users db')) = users_seq db + 1 \<and>
           User_UserID (last (users db')) = word_of_int (rand_Intn_10000 A) \<and>
           (0 \<le> rand_Intn_10000 A \<and> rand_Intn_10000 A < 10000 \<longrightarrow>
              uint (User_UserID (last (users db'))) = rand_Intn_10000 A)"
proof -
  have u: "0 \<le> rand_Intn_10000 A \<and> rand_Intn_10000 A < 10000 \<longrightarrow>
      uint (word_of_int (rand_Intn_10000 A) :: uint) = rand_Intn_10000 A"
    by (simp add: uint_word_of_int take_bit_int_eq_self)
  show ?thesis
    using assms u
    by (auto simp: RegisterHandler_def Create_user_def JSON_def Status_defs Let_def newUser_def
        CreateToken_Inr_user_id
        split: option.splits if_splits sum.splits prod.splits)
qed

lemma First_Inr:
  "First failed cond rows = Inr r \<Longrightarrow> r \<in> set rows \<and> cond r \<and> \<not> failed"
  by (auto simp: First_def find_Some_iff split: if_splits option.splits)

lemma RegisterHandler_bob:
  "RegisterHandler demo_extern demo_ambient (Some bob_data) demo_db =
     (JSON StatusOK [''success'' \<mapsto> VBool True, ''token'' \<mapsto> VToken bob_token],
      demo_db\<lparr>users := [alice, bob], users_seq := 2\<rparr>)"
proof -
  have t: "CreateToken (HS256 demo_extern) (environment demo_ambient) (time_Now demo_ambient) 2 =
      Inr bob_token"
    using CreateToken_echo [of 2] by (simp add: demo_extern_def demo_ambient_def bob_token_def)
  have v: "validate_register demo_extern bob_data = []"
    by (simp add: validate_register_def demo_extern_def bob_data_def)
  have f: "First (db_fails demo_ambient 0) (\<lambda>u. User_Email u = register_Email bob_data)
      (users demo_db) = Inl ErrRecordNotFound"
    by (simp add: First_def demo_ambient_def demo_db_def alice_def bob_data_def)
  have g: "GenerateFromPassword demo_extern (crypto_rand demo_ambient)
      (register_Password bob_data) 10 = Inr ''salt321terces''"
    by (simp add: demo_extern_def demo_ambient_def bob_data_def)
  have n: "newUser (word_of_int (rand_Intn_10000 demo_ambient)) bob_data ''salt321terces'' =
      bob\<lparr>User_ID := 0\<rparr>"
    by (simp add: newUser_def demo_ambient_def bob_data_def bob_def)
  have c: "Create_user (db_fails demo_ambient (Suc 0)) (bob\<lparr>User_ID := 0\<rparr>) demo_db =
      Inr (bob, demo_db\<lparr>users := [alice, bob], users_seq := 2\<rparr>)"
    by (simp add: Create_user_def Let_def demo_ambient_def demo_db_def bob_def)
  have i: "User_ID bob = 2" by (simp add: bob_def)
  show ?thesis
    by (simp add: RegisterHandler_def v f g n c i t)
qed

theorem RegisterHandler_token_subject_witness:
  "RegisterHandler demo_extern demo_ambient (Some bob_data) demo_db =
     (JSON StatusOK [''success'' \<mapsto> VBool True, ''token'' \<mapsto> VToken bob_token],
      demo_db\<lparr>users := [alice, bob], users_seq := 2\<rparr>) \<and>
   jws_payload bob_token ''user_id'' = Some (JNumber 2) \<and>
   map User_ID [alice, bob] = [1, 2] \<and>
   map User_UserID [alice, bob] = [4711, 4711] \<and>
   rand_Intn_10000 demo_ambient = 4711"
proof -
  have s: "status (JSON StatusOK [''success'' \<mapsto> VBool True, ''token'' \<mapsto> VToken bob_token]
      :: unit response) = StatusOK"
    by simp
  from RegisterHandler_token_subject [OF RegisterHandler_bob s] RegisterHandler_bob
  show ?thesis by (simp add: alice_def bob_def bob_token_def demo_ambient_def)
qed

section \<open>Stored passwords\<close>

text \<open>
  C8. Registration and profile update write a password to the user table only as the
  result of \<^verbatim>\<open>bcrypt.GenerateFromPassword\<close>, called with the cost 10 in both handlers:
  after either handler, every stored password was already stored before or is the hash
  of the password supplied in the request; and a successful profile update with a
  non-empty password leaves that hash in the row it addresses.
\<close>

theorem stored_passwords_are_hashes:
  "(RegisterHandler E A reg db = (r, db') \<longrightarrow>
      (\<forall>u\<in>set (users db').
         User_Password u \<in> User_Password ` set (users db) \<or>
         (\<exists>d. reg = Some d \<and>
              GenerateFromPassword E (crypto_rand A) (register_Password d) 10 =
                Inr (User_Password u)))) \<and>
   (UpdateProfile E A idStr upd db = (ru, dbu) \<longrightarrow>
      (\<forall>u\<in>set (users dbu).
         User_Password u \<in> User_Password ` set (users db) \<or>
         (\<exists>d. upd = Some d \<and> User_Password d \<noteq> [] \<and>
              GenerateFromPassword E (crypto_rand A) (User_Password d) 10 =
                Inr (User_Password u)))) \<and>
   (UpdateProfile E A idStr (Some w) db = (rs, dbs) \<and> status rs = StatusOK \<and>
    User_Password w \<noteq> [] \<longrightarrow>
      (\<exists>h idn. ParseUint idStr 32 = Inr idn \<and>
         GenerateFromPassword E (crypto_rand A) (User_Password w) 10 = Inr h \<and>
         (\<exists>u\<in>set (users db). User_ID u = of_nat idn) \<and>
         length (users dbs) = length (users db) \<and>
         (\<forall>u\<in>set (users dbs). User_ID u = of_nat idn \<longrightarrow> User_Password u = h)))"
proof (intro conjI impI)
  assume "RegisterHandler E A reg db = (r, db')"
  then show "\<forall>u\<in>set (users db').
         User_Password u \<in> User_Password ` set (users db) \<or>
         (\<exists>d. reg = Some d \<and>
              GenerateFromPassword E (crypto_rand A) (register_Password d) 10 =
                Inr (User_Password u))"
    by (auto simp: RegisterHandler_def Create_user_def Let_def newUser_def
        split: option.splits if_splits sum.splits prod.splits)
next
  assume a: "UpdateProfile E A idStr upd db = (ru, dbu)"
  show "\<forall>u\<in>set (users dbu).
         User_Password u \<in> User_Password ` set (users db) \<or>
         (\<exists>d. upd = Some d \<and> User_Password d \<noteq> [] \<and>
              GenerateFromPassword E (crypto_rand A) (User_Password d) 10 =
                Inr (User_Password u))"
    using a
    by (auto simp: UpdateProfile_def Save_user_def Let_def dest!: First_Inr
        split: option.splits if_splits sum.splits prod.splits)
next
  assume "UpdateProfile E A idStr (Some w) db = (rs, dbs) \<and> status rs = StatusOK \<and>
    User_Password w \<noteq> []"
  then show "\<exists>h idn. ParseUint idStr 32 = Inr idn \<and>
         GenerateFromPassword E (crypto_rand A) (User_Password w) 10 = Inr h \<and>
         (\<exists>u\<in>set (users db). User_ID u = of_nat idn) \<and>
         length (users dbs) = length (users db) \<and>
         (\<forall>u\<in>set (users dbs). User_ID u = of_nat idn \<longrightarrow> User_Password u = h)"
    by (auto simp: UpdateProfile_def Save_user_def Let_def Status_defs dest!: First_Inr
        split: option.splits if_splits sum.splits prod.splits)
qed

lemma UpdateProfile_alice:
  "UpdateProfile demo_extern demo_ambient ''1'' (Some new_password) demo_db =
     (JSON StatusOK [''success'' \<mapsto> VBool True,
                     ''message'' \<mapsto> VString ''User profile updated successfully''],
      demo_db\<lparr>users := [alice\<lparr>User_Password := ''saltssapwen''\<rparr>]\<rparr>)"
  by (simp add: UpdateProfile_def ParseUint_def digit_val_def First_def Save_user_def
      demo_extern_def demo_ambient_def demo_db_def alice_def new_password_def)

theorem stored_passwords_are_hashes_witness:
  "RegisterHandler demo_extern demo_ambient (Some bob_data) demo_db =
     (JSON StatusOK [''success'' \<mapsto> VBool True, ''token'' \<mapsto> VToken bob_token],
      demo_db\<lparr>users := [alice, bob], users_seq := 2\<rparr>) \<and>
   list_all
     (\<lambda>u. User_Password u \<in> User_Password ` set (users demo_db) \<or>
          (\<exists>d. Some bob_data = Some d \<and>
               GenerateFromPassword demo_extern (crypto_rand demo_ambient) (register_Password d) 10 =
                 Inr (User_Password u)))
     (users (demo_db\<lparr>users := [alice, bob], users_seq := 2\<rparr>)) \<and>
   UpdateProfile demo_extern demo_ambient ''1'' (Some new_password) demo_db =
     (JSON StatusOK [''success'' \<mapsto> VBool True,
                     ''message'' \<mapsto> VString ''User profile updated successfully''],
      demo_db\<lparr>users := [alice\<lparr>User_Password := ''saltssapwen''\<rparr>]\<rparr>) \<and>
   User_Password new_password = ''newpass'' \<and>
   list_all
     (\<lambda>u. User_Password u \<in> User_Password ` set (users demo_db) \<or>
          (\<exists>d. Some new_password = Some d \<and> User_Password d \<noteq> [] \<and>
               GenerateFromPassword demo_extern (crypto_rand demo_ambient) (User_Password d) 10 =
                 Inr (User_Password u)))
     (users (demo_db\<lparr>users := [alice\<lparr>User_Password := ''saltssapwen''\<rparr>]\<rparr>)) \<and>
   (\<exists>h idn. ParseUint ''1'' 32 = Inr idn \<and>
      GenerateFromPassword demo_extern (crypto_rand demo_ambient) (User_Password new_password) 10 =
        Inr h \<and>
      (\<exists>u\<in>set (users demo_db). User_ID u = of_nat idn) \<and>
      length (users (demo_db\<lparr>users := [alice\<lparr>User_Password := ''saltssapwen''\<rparr>]\<rparr>)) =
        length (users demo_db) \<and>
      (\<forall>u\<in>set (users (demo_db\<lparr>users := [alice\<lparr>User_Password := ''saltssapwen''\<rparr>]\<rparr>)).
         User_ID u = of_nat idn \<longrightarrow> User_Password u = h)) \<and>
   GenerateFromPassword demo_extern (crypto_rand demo_ambient) ''newpass'' 10 = Inr ''saltssapwen''"
proof -
  have s: "status (JSON StatusOK [''success'' \<mapsto> VBool True,
      ''message'' \<mapsto> VString ''User profile updated successfully''] :: unit response) = StatusOK"
    by simp
  have p: "User_Password new_password \<noteq> []" by (simp add: new_password_def)
  have q: "User_Password new_password = ''newpass''" by (simp add: new_password_def)
  have g: "GenerateFromPassword demo_extern (crypto_rand demo_ambient) ''newpass'' 10 = Inr ''saltssapwen''"
    by (simp add: demo_extern_def demo_ambient_def)
  note t = stored_passwords_are_hashes [where E = demo_extern and A = demo_ambient
      and reg = "Some bob_data" and db = demo_db and idStr = "''1''" and upd = "Some new_password"
      and w = new_password
      and r = "JSON StatusOK [''success'' \<mapsto> VBool True, ''token'' \<mapsto> VToken bob_token]"
      and db' = "demo_db\<lparr>users := [alice, bob], users_seq := 2\<rparr>"
      and ru = "JSON StatusOK [''success'' \<mapsto> VBool True,
                     ''message'' \<mapsto> VString ''User profile updated successfully'']"
      and dbu = "demo_db\<lparr>users := [alice\<lparr>User_Password := ''saltssapwen''\<rparr>]\<rparr>"
      and rs = "JSON StatusOK [''success'' \<mapsto> VBool True,
                     ''message'' \<mapsto> VString ''User profile updated successfully'']"
      and dbs = "demo_db\<lparr>users := [alice\<lparr>User_Password := ''saltssapwen''\<rparr>]\<rparr>"]
  note t1 = t [THEN conjunct1, THEN mp, OF RegisterHandler_bob, folded list_all_iff]
  note t2 = t [THEN conjunct2, THEN conjunct1, THEN mp, OF UpdateProfile_alice, folded list_all_iff]
  note t3 = t [THEN conjunct2, THEN conjunct2, THEN mp,
      OF conjI [OF UpdateProfile_alice conjI [OF s p]]]
  from RegisterHandler_bob t1 UpdateProfile_alice q t2 t3 g show ?thesis
    by (intro conjI)
qed

section \<open>The cart\<close>


lemma JSON_struct_status [simp]: "status (JSON_struct v) = StatusOK"
  by (simp add: JSON_struct_def)

lemma JSON_struct_body [simp]: "body (JSON_struct v) = JSONStruct v"
  by (simp add: JSON_struct_def)

lemma UpdateCartItemQuantityHandler_OK:
  assumes "UpdateCartItemQuantityHandler E A loc bookID (Some q) db = Inr (r, db')"
    and "status r = StatusOK"
  shows "\<exists>ci\<in>set (cart_items db).
           r = JSON_struct (ci\<lparr>CartItem_Quantity := q\<rparr>) \<and>
           db' = db\<lparr>cart_items :=
                      map (\<lambda>row. if CartItem_ID row = CartItem_ID ci
                                  then ci\<lparr>CartItem_Quantity := q\<rparr> else row) (cart_items db)\<rparr>"
  using assms
  by (auto simp: UpdateCartItemQuantityHandler_def Save_cart_item_def Let_def Status_defs
      dest!: First_Inr split: option.splits if_splits sum.splits prod.splits)

lemma AddToCartHandler_OK:
  assumes "AddToCartHandler E A loc (Some d) db = Inr (r, db')"
    and "status r = StatusOK"
  shows "\<exists>item\<in>set (cart_items db'). \<exists>book\<in>set (books db).
           body r = JSONStruct item \<and>
           Book_ID book = CartItem_BookID item \<and>
           CartItem_Subtotal item =
             float64_mul E (float64_of_uint E (CartItem_Quantity item)) (Book_Price book)"
proof -
  obtain userID where u: "token_user_id loc = Inr userID"
    using assms(1) by (auto simp: AddToCartHandler_def split: sum.splits)
  have v: "validate_add_to_cart d = []"
    using assms u by (auto simp: AddToCartHandler_def Status_defs split: if_splits)
  show ?thesis
  proof (cases "First (db_fails A 0)
      (\<lambda>ci. CartItem_UserID ci = userID \<and> CartItem_BookID ci = add_BookID d) (cart_items db)")
    case (Inr existing)
    then obtain book where b: "First (db_fails A 1) (\<lambda>b. Book_ID b = add_BookID d) (books db) = Inr book"
      using assms u v by (auto simp: AddToCartHandler_def Status_defs Let_def split: sum.splits)
    let ?e2 = "existing\<lparr>CartItem_Quantity := CartItem_Quantity existing + add_Quantity d,
        CartItem_Subtotal := float64_mul E
          (float64_of_uint E (CartItem_Quantity existing + add_Quantity d)) (Book_Price book)\<rparr>"
    have r: "r = JSON_struct ?e2" and d': "db' = db\<lparr>cart_items :=
        map (\<lambda>row. if CartItem_ID row = CartItem_ID ?e2 then ?e2 else row) (cart_items db)\<rparr>"
      using assms u v Inr b
      by (auto simp: AddToCartHandler_def Status_defs Let_def Save_cart_item_def
          split: sum.splits if_splits)
    have "existing \<in> set (cart_items db)" and eb: "CartItem_BookID existing = add_BookID d"
      using First_Inr [OF Inr] by auto
    then have "?e2 \<in> set (cart_items db')" using d' by (auto simp: image_iff intro!: bexI [of _ existing])
    moreover have "book \<in> set (books db)" "Book_ID book = CartItem_BookID ?e2"
      using First_Inr [OF b] eb by auto
    ultimately show ?thesis using r by (auto intro!: bexI [of _ ?e2] bexI [of _ book])
  next
    case (Inl e)
    then obtain book where b: "First (db_fails A 3) (\<lambda>b. Book_ID b = add_BookID d) (books db) = Inr book"
      using assms u v by (auto simp: AddToCartHandler_def Status_defs Let_def split: sum.splits)
    let ?n = "\<lparr>CartItem_ID = cart_items_seq db + 1, CartItem_UserID = userID,
        CartItem_BookID = add_BookID d, CartItem_Quantity = add_Quantity d,
        CartItem_Subtotal = float64_mul E (float64_of_uint E (add_Quantity d)) (Book_Price book)\<rparr>"
    have r: "r = JSON_struct ?n" and d': "cart_items db' = cart_items db @ [?n]"
      using assms u v Inl b
      by (auto simp: AddToCartHandler_def Status_defs Let_def Create_cart_item_def
          split: sum.splits if_splits)
    have "?n \<in> set (cart_items db')" using d' by simp
    moreover have "book \<in> set (books db)" "Book_ID book = CartItem_BookID ?n"
      using First_Inr [OF b] by auto
    ultimately show ?thesis using r by (auto intro!: bexI [of _ ?n] bexI [of _ book])
  qed
qed

text \<open>
  C9. A successful \<^verbatim>\<open>UpdateCartItemQuantityHandler\<close> call answers with, and saves, the
  cart item it found with only \<^verbatim>\<open>Quantity\<close> replaced by the requested value: the other
  rows are untouched and the row keeps its \<^verbatim>\<open>Subtotal\<close>, which therefore need not be
  \<^verbatim>\<open>Quantity\<close> times the price any more; a successful \<^verbatim>\<open>AddToCartHandler\<close> call, in
  contrast, answers with a stored item whose \<^verbatim>\<open>Subtotal\<close> is
  \<^verbatim>\<open>float64(Quantity) * book.Price\<close>.
\<close>

theorem UpdateCartItemQuantity_keeps_Subtotal:
  "(UpdateCartItemQuantityHandler E A loc bookID (Some q) db = Inr (r, db') \<and> status r = StatusOK \<longrightarrow>
      (\<exists>ci\<in>set (cart_items db).
         body r = JSONStruct (ci\<lparr>CartItem_Quantity := q\<rparr>) \<and>
         db' = db\<lparr>cart_items :=
                    map (\<lambda>row. if CartItem_ID row = CartItem_ID ci
                                then ci\<lparr>CartItem_Quantity := q\<rparr> else row) (cart_items db)\<rparr> \<and>
         (\<forall>row\<in>set (cart_items db').
            CartItem_ID row = CartItem_ID ci \<longrightarrow>
              CartItem_Quantity row = q \<and>
              CartItem_Subtotal row = CartItem_Subtotal ci \<and>
              CartItem_UserID row = CartItem_UserID ci \<and>
              CartItem_BookID row = CartItem_BookID ci))) \<and>
   (AddToCartHandler E A loc (Some d) db = Inr (ra, dba) \<and> status ra = StatusOK \<longrightarrow>
      (\<exists>item\<in>set (cart_items dba). \<exists>book\<in>set (books db).
         body ra = JSONStruct item \<and>
         Book_ID book = CartItem_BookID item \<and>
         CartItem_Subtotal item =
           float64_mul E (float64_of_uint E (CartItem_Quantity item)) (Book_Price book)))"
proof (intro conjI impI)
  assume a: "UpdateCartItemQuantityHandler E A loc bookID (Some q) db = Inr (r, db') \<and>
    status r = StatusOK"
  then have a1: "UpdateCartItemQuantityHandler E A loc bookID (Some q) db = Inr (r, db')"
    and a2: "status r = StatusOK"
    by simp_all
  from UpdateCartItemQuantityHandler_OK [OF a1 a2]
  show "\<exists>ci\<in>set (cart_items db).
         body r = JSONStruct (ci\<lparr>CartItem_Quantity := q\<rparr>) \<and>
         db' = db\<lparr>cart_items :=
                    map (\<lambda>row. if CartItem_ID row = CartItem_ID ci
                                then ci\<lparr>CartItem_Quantity := q\<rparr> else row) (cart_items db)\<rparr> \<and>
         (\<forall>row\<in>set (cart_items db').
            CartItem_ID row = CartItem_ID ci \<longrightarrow>
              CartItem_Quantity row = q \<and>
              CartItem_Subtotal row = CartItem_Subtotal ci \<and>
              CartItem_UserID row = CartItem_UserID ci \<and>
              CartItem_BookID row = CartItem_BookID ci)"
  proof (elim bexE conjE)
    fix ci
    assume ci: "ci \<in> set (cart_items db)"
      and r: "r = JSON_struct (ci\<lparr>CartItem_Quantity := q\<rparr>)"
      and d: "db' = db\<lparr>cart_items :=
                    map (\<lambda>row. if CartItem_ID row = CartItem_ID ci
                                then ci\<lparr>CartItem_Quantity := q\<rparr> else row) (cart_items db)\<rparr>"
    have b: "body r = JSONStruct (ci\<lparr>CartItem_Quantity := q\<rparr>)"
      by (simp add: r)
    have f: "\<forall>row\<in>set (cart_items db').
            CartItem_ID row = CartItem_ID ci \<longrightarrow>
              CartItem_Quantity row = q \<and>
              CartItem_Subtotal row = CartItem_Subtotal ci \<and>
              CartItem_UserID row = CartItem_UserID ci \<and>
              CartItem_BookID row = CartItem_BookID ci"
      by (auto simp: d)
    from b d f have "body r = JSONStruct (ci\<lparr>CartItem_Quantity := q\<rparr>) \<and>
         db' = db\<lparr>cart_items :=
                    map (\<lambda>row. if CartItem_ID row = CartItem_ID ci
                                then ci\<lparr>CartItem_Quantity := q\<rparr> else row) (cart_items db)\<rparr> \<and>
         (\<forall>row\<in>set (cart_items db').
            CartItem_ID row = CartItem_ID ci \<longrightarrow>
              CartItem_Quantity row = q \<and>
              CartItem_Subtotal row = CartItem_Subtotal ci \<and>
              CartItem_UserID row = CartItem_UserID ci \<and>
              CartItem_BookID row = CartItem_BookID ci)"
      by (intro conjI)
    with ci show ?thesis by (rule bexI [rotated])
  qed
next
  assume "AddToCartHandler E A loc (Some d) db = Inr (ra, dba) \<and> status ra = StatusOK"
  then have a1: "AddToCartHandler E A loc (Some d) db = Inr (ra, dba)"
    and a2: "status ra = StatusOK"
    by simp_all
  show "\<exists>item\<in>set (cart_items dba). \<exists>book\<in>set (books db).
         body ra = JSONStruct item \<and>
         Book_ID book = CartItem_BookID item \<and>
         CartItem_Subtotal item =
           float64_mul E (float64_of_uint E (CartItem_Quantity item)) (Book_Price book)"
    by (rule AddToCartHandler_OK [OF a1 a2])
qed

lemma token_user_id_demo_locals: "token_user_id (Some demo_locals) = Inr 1"
  using token_user_id_demo_token by (simp add: demo_locals_def)

lemma UpdateCartItemQuantityHandler_demo:
  "UpdateCartItemQuantityHandler demo_extern demo_ambient (Some demo_locals) ''7'' (Some 5) cart_db =
     Inr (JSON_struct \<lparr>CartItem_ID = 1, CartItem_UserID = 1, CartItem_BookID = 7,
                       CartItem_Quantity = 5, CartItem_Subtotal = 20\<rparr>,
          cart_db\<lparr>cart_items := [\<lparr>CartItem_ID = 1, CartItem_UserID = 1, CartItem_BookID = 7,
                                    CartItem_Quantity = 5, CartItem_Subtotal = 20\<rparr>]\<rparr>)"
proof -
  have s: "sql_integer demo_extern ''7'' = Some 7"
    by (simp add: demo_extern_def digit_val_def)
  show ?thesis
    by (simp add: UpdateCartItemQuantityHandler_def token_user_id_demo_locals
        validate_update_quantity_def s First_def Save_cart_item_def Let_def demo_ambient_def
        cart_db_def)
qed

lemma AddToCartHandler_demo:
  "AddToCartHandler demo_extern demo_ambient (Some demo_locals)
       (Some \<lparr>add_BookID = 7, add_Quantity = 1\<rparr>) cart_db =
     Inr (JSON_struct \<lparr>CartItem_ID = 1, CartItem_UserID = 1, CartItem_BookID = 7,
                       CartItem_Quantity = 3, CartItem_Subtotal = 30\<rparr>,
          cart_db\<lparr>cart_items := [\<lparr>CartItem_ID = 1, CartItem_UserID = 1, CartItem_BookID = 7,
                                    CartItem_Quantity = 3, CartItem_Subtotal = 30\<rparr>]\<rparr>)"
  by (simp add: AddToCartHandler_def token_user_id_demo_locals validate_add_to_cart_def
      First_def Save_cart_item_def Let_def demo_ambient_def demo_extern_def cart_db_def)

theorem UpdateCartItemQuantity_keeps_Subtotal_witness:
  "UpdateCartItemQuantityHandler demo_extern demo_ambient (Some demo_locals) ''7'' (Some 5) cart_db =
     Inr (JSON_struct cart_item_5, cart_db\<lparr>cart_items := [cart_item_5]\<rparr>) \<and>
   status (JSON_struct cart_item_5) = StatusOK \<and>
   map CartItem_Subtotal (cart_items cart_db) = [20] \<and>
   map CartItem_Subtotal (cart_items (cart_db\<lparr>cart_items := [cart_item_5]\<rparr>)) = [20] \<and>
   map Book_Price (books cart_db) = [10] \<and>
   float64_mul demo_extern (float64_of_uint demo_extern (CartItem_Quantity cart_item_5)) 10 = 50 \<and>
   (\<exists>ci\<in>set (cart_items cart_db).
      body (JSON_struct cart_item_5) = JSONStruct (ci\<lparr>CartItem_Quantity := 5\<rparr>) \<and>
      cart_db\<lparr>cart_items := [cart_item_5]\<rparr> =
        cart_db\<lparr>cart_items :=
                  map (\<lambda>row. if CartItem_ID row = CartItem_ID ci
                              then ci\<lparr>CartItem_Quantity := 5\<rparr> else row) (cart_items cart_db)\<rparr> \<and>
      (\<forall>row\<in>set (cart_items (cart_db\<lparr>cart_items := [cart_item_5]\<rparr>)).
         CartItem_ID row = CartItem_ID ci \<longrightarrow>
           CartItem_Quantity row = 5 \<and>
           CartItem_Subtotal row = CartItem_Subtotal ci \<and>
           CartItem_UserID row = CartItem_UserID ci \<and>
           CartItem_BookID row = CartItem_BookID ci)) \<and>
   AddToCartHandler demo_extern demo_ambient (Some demo_locals)
       (Some \<lparr>add_BookID = 7, add_Quantity = 1\<rparr>) cart_db =
     Inr (JSON_struct cart_item_3, cart_db\<lparr>cart_items := [cart_item_3]\<rparr>) \<and>
   status (JSON_struct cart_item_3) = StatusOK \<and>
   (\<exists>item\<in>set (cart_items (cart_db\<lparr>cart_items := [cart_item_3]\<rparr>)).
      \<exists>book\<in>set (books cart_db).
        body (JSON_struct cart_item_3) = JSONStruct item \<and>
        Book_ID book = CartItem_BookID item \<and>
        CartItem_Subtotal item =
          float64_mul demo_extern (float64_of_uint demo_extern (CartItem_Quantity item))
            (Book_Price book))"
proof -
  have a: "AddToCartHandler demo_extern demo_ambient (Some demo_locals)
       (Some \<lparr>add_BookID = 7, add_Quantity = 1\<rparr>) cart_db =
     Inr (JSON_struct cart_item_3, cart_db\<lparr>cart_items := [cart_item_3]\<rparr>)"
    using AddToCartHandler_demo by (simp add: cart_item_3_def)
  have sa: "status (JSON_struct cart_item_3) = StatusOK"
    by simp
  note ta = UpdateCartItemQuantity_keeps_Subtotal [where E = demo_extern and A = demo_ambient
      and loc = "Some demo_locals" and db = cart_db
      and d = "\<lparr>add_BookID = 7, add_Quantity = 1\<rparr>"
      and ra = "JSON_struct cart_item_3" and dba = "cart_db\<lparr>cart_items := [cart_item_3]\<rparr>",
      THEN conjunct2, THEN mp, OF conjI [OF a sa]]
  have u: "UpdateCartItemQuantityHandler demo_extern demo_ambient (Some demo_locals) ''7'' (Some 5)
      cart_db = Inr (JSON_struct cart_item_5, cart_db\<lparr>cart_items := [cart_item_5]\<rparr>)"
    using UpdateCartItemQuantityHandler_demo by (simp add: cart_item_5_def)
  have s: "status (JSON_struct cart_item_5) = StatusOK"
    by simp
  have m1: "map CartItem_Subtotal (cart_items cart_db) = [20]"
    by (simp add: cart_db_def)
  have m2: "map CartItem_Subtotal (cart_items (cart_db\<lparr>cart_items := [cart_item_5]\<rparr>)) = [20]"
    by (simp add: cart_item_5_def)
  have m3: "map Book_Price (books cart_db) = [10]"
    by (simp add: cart_db_def)
  have m4: "float64_mul demo_extern (float64_of_uint demo_extern (CartItem_Quantity cart_item_5)) 10 = 50"
    by (simp add: demo_extern_def cart_item_5_def)
  note t = UpdateCartItemQuantity_keeps_Subtotal [where E = demo_extern and A = demo_ambient
      and loc = "Some demo_locals" and bookID = "''7''" and q = 5 and db = cart_db
      and r = "JSON_struct cart_item_5" and db' = "cart_db\<lparr>cart_items := [cart_item_5]\<rparr>",
      THEN conjunct1, THEN mp, OF conjI [OF u s]]
  from u s m1 m2 m3 m4 t a sa ta show ?thesis
    by (intro conjI)
qed

end
